theory Spec2Isabelle
  imports Main "HOL-Library.Sublist"
begin

section \<open>Tag discovery and metric materialisation of the CloudWatch exporter (aws\_tags.go)\<close>

text \<open>
  The theory embeds \<^verbatim>\<open>aws_tags.go\<close>: the four discovery paths of \<^verbatim>\<open>tagsInterface.get\<close>
  (the generic tag search, autoscaling groups, transit-gateway attachments and the
  API-gateway enrichment) and \<^verbatim>\<open>migrateTagsToPrometheus\<close>.

  Conventions of the embedding.
  \<^item> A Go \<^verbatim>\<open>*string\<close> is a \<open>string option\<close>; dereferencing \<open>None\<close> is the panic
    \<open>NilPointerDereference\<close>. An index past the end of a slice is the panic
    \<open>IndexOutOfRange i n\<close>. \<^verbatim>\<open>log.Fatal\<close> ends the process: \<open>LogFatal\<close>.
    A function that can panic returns \<open>failure + 'a\<close>, with \<open>Inl\<close> the failure.
  \<^item> The error value an SDK call returns is an \<open>awsError\<close>; it is data, not a failure.
  \<^item> The AWS SDK is outside the repository. A paginated endpoint is the stream of its
    responses (\<open>pages\<close>, a codatatype, so a provider that never signals a last page is a
    value of the type), and \<open>PagesWithContext\<close> is the SDK's page loop.
  \<^item> The package-level counters and the logger are the record \<open>globals\<close>, passed in
    and returned.
\<close>

subsection \<open>Failures, errors and the Go string functions used\<close>

type_synonym awsError = string

datatype failure = NilPointerDereference | IndexOutOfRange nat nat | LogFatal string

definition deref :: "'a option \<Rightarrow> failure + 'a" where
  "deref p = (case p of None \<Rightarrow> Inl NilPointerDereference | Some v \<Rightarrow> Inr v)"

definition index :: "'a list \<Rightarrow> nat \<Rightarrow> failure + 'a" where
  "index xs i = (if i < length xs then Inr (xs ! i) else Inl (IndexOutOfRange i (length xs)))"

definition andThen :: "failure + 'a \<Rightarrow> ('a \<Rightarrow> failure + 'b) \<Rightarrow> failure + 'b" where
  "andThen r k = (case r of Inl f \<Rightarrow> Inl f | Inr v \<Rightarrow> k v)"

text \<open>
  \<^verbatim>\<open>strings.Split(s, sep)\<close> for a separator of one byte, which is how the code calls it
  (\<^verbatim>\<open>":"\<close> and \<^verbatim>\<open>"/"\<close>): the result always has one more field than \<open>s\<close> has separators.
\<close>

fun strings_Split :: "string \<Rightarrow> char \<Rightarrow> string list" where
  "strings_Split [] sep = [[]]"
| "strings_Split (c # cs) sep =
     (if c = sep then [] # strings_Split cs sep
      else (case strings_Split cs sep of
              [] \<Rightarrow> [[c]]
            | p # ps \<Rightarrow> (c # p) # ps))"

text \<open>\<^verbatim>\<open>strings.Contains(s, substr)\<close>: \<open>substr\<close> starts at some position of \<open>s\<close>.\<close>

fun strings_Contains :: "string \<Rightarrow> string \<Rightarrow> bool" where
  "strings_Contains [] substr = (substr = [])"
| "strings_Contains (c # cs) substr = (prefix substr (c # cs) \<or> strings_Contains cs substr)"

subsection \<open>The data of the package\<close>

record tag =
  Key :: string
  Value :: string

record job =
  Type :: string
  SearchTags :: "tag list"

record tagsData =
  ID :: "string option"
  Matcher :: "string option"
  Tags :: "tag list"
  Service :: "string option"
  Region :: "string option"

datatype logEntry =
  GetTaggedApiGatewayFailed awsError
| CouldNotFindGateway string string

record globals =
  resourceGroupTaggingAPICounter :: nat
  autoScalingAPICounter :: nat
  apiGatewayAPICounter :: nat
  ec2APICounter :: nat
  logged :: "logEntry list"

subsection \<open>The SDK: response shapes and the page loop\<close>

text \<open>
  The fields of the SDK's response structs that the code reads. All of them are
  \<^verbatim>\<open>*string\<close> in the SDK; the elements of the SDK's slices (pointers to structs) are
  taken as present. The three SDK tag types (\<^verbatim>\<open>resourcegroupstaggingapi.Tag\<close>,
  \<^verbatim>\<open>autoscaling.TagDescription\<close>, \<^verbatim>\<open>ec2.Tag\<close>) agree on the two fields read.
\<close>

record sdkTag =
  Tag_Key :: "string option"
  Tag_Value :: "string option"

record ResourceTagMapping =
  ResourceARN :: "string option"
  Mapping_Tags :: "sdkTag list"

record AutoScalingGroup =
  AutoScalingGroupARN :: "string option"
  Group_Tags :: "sdkTag list"

record TransitGatewayAttachment =
  TransitGatewayId :: "string option"
  TransitGatewayAttachmentId :: "string option"
  Attachment_Tags :: "sdkTag list"

record RestApi =
  RestApi_Id :: "string option"
  RestApi_Name :: "string option"

text \<open>
  What a paginated endpoint answers, request after request: a page followed by the
  answers to the later requests, a failing request, or no further page (no next token).
\<close>

codatatype 'p pages = NoMorePages | RequestFails awsError | Page 'p "'p pages"

text \<open>
  The SDK's \<^verbatim>\<open>...PagesWithContext(ctx, input, fn)\<close>:
  \<^verbatim>\<open>for p.Next() { if !fn(p.Page(), !p.HasNextPage()) { break } }; return p.Err()\<close>.
  \<open>Next\<close> sends a request only while a next page is announced; a failing request ends the
  loop with its error, and there is no retry here. \<open>st\<close> is what the callback's closure
  mutates; the last component of the result counts the requests sent. The loop need
  not end against an endless provider, so the result is optional: \<open>None\<close> is a call that
  never returns.
\<close>

partial_function (option) PagesWithContext ::
  "'p pages \<Rightarrow> ('p \<Rightarrow> bool \<Rightarrow> 's \<Rightarrow> failure + ('s \<times> bool)) \<Rightarrow> 's \<Rightarrow> nat
     \<Rightarrow> (failure + ('s \<times> awsError option \<times> nat)) option" where
  "PagesWithContext src fn st n =
     (case src of
        NoMorePages \<Rightarrow> Some (Inr (st, None, n))
      | RequestFails e \<Rightarrow> Some (Inr (st, Some e, Suc n))
      | Page page rest \<Rightarrow>
          (case fn page (case rest of NoMorePages \<Rightarrow> True | _ \<Rightarrow> False) st of
             Inl f \<Rightarrow> Some (Inl f)
           | Inr (st', continue) \<Rightarrow>
               if continue then PagesWithContext rest fn st' (Suc n)
               else Some (Inr (st', None, Suc n))))"

declare PagesWithContext.simps [code]

record tagsInterface =
  client :: "string list \<Rightarrow> ResourceTagMapping list pages"
  asgClient :: "AutoScalingGroup list pages"
  apiGatewayClient :: "nat \<Rightarrow> RestApi list pages"
  ec2Client :: "TransitGatewayAttachment list pages"

subsection \<open>The tag filter\<close>

text \<open>
  Modelled from the spec: \<^verbatim>\<open>tagsData.filterThroughTags\<close> is called by every discovery
  path and is defined in another file of the package, not in \<^verbatim>\<open>aws_tags.go\<close>. Spec, 4.6:
  true iff every required matcher is satisfied by some tag of the record, key and value
  both equal, no wildcard or regular expression; an empty required set always passes.
\<close>

definition filterThroughTags :: "tagsData \<Rightarrow> tag list \<Rightarrow> bool" where
  "filterThroughTags r filterTags =
     list_all (\<lambda>filterTag.
        list_ex (\<lambda>resourceTag. Key resourceTag = Key filterTag \<and> Value resourceTag = Value filterTag)
          (Tags r)) filterTags"

subsection \<open>Building tag records\<close>

text \<open>
  \<^verbatim>\<open>for _, t := range tags { resource.Tags = append(resource.Tags, &tag{Key: *t.Key, Value: *t.Value}) }\<close>
\<close>

fun appendTags :: "sdkTag list \<Rightarrow> tag list \<Rightarrow> failure + tag list" where
  "appendTags [] acc = Inr acc"
| "appendTags (t # ts) acc =
     andThen (deref (Tag_Key t)) (\<lambda>k.
     andThen (deref (Tag_Value t)) (\<lambda>v.
     appendTags ts (acc @ [\<lparr>Key = k, Value = v\<rparr>])))"

text \<open>
  The body shared by the three discovery callbacks: build the record of each item of the
  page and append it when it passes the tag filter.
\<close>

fun appendFiltered ::
  "('i \<Rightarrow> failure + tagsData) \<Rightarrow> tag list \<Rightarrow> 'i list \<Rightarrow> tagsData list \<Rightarrow> failure + tagsData list" where
  "appendFiltered mk searchTags [] resources = Inr resources"
| "appendFiltered mk searchTags (item # items) resources =
     andThen (mk item) (\<lambda>resource.
     appendFiltered mk searchTags items
       (if filterThroughTags resource searchTags then resources @ [resource] else resources))"

text \<open>Generic path, lines 139 to 148: the identifier is the provider's pointer, copied.\<close>

definition mappingResource :: "job \<Rightarrow> string \<Rightarrow> ResourceTagMapping \<Rightarrow> failure + tagsData" where
  "mappingResource job region resourceTagMapping =
     andThen (appendTags (Mapping_Tags resourceTagMapping) []) (\<lambda>ts.
     Inr \<lparr>ID = ResourceARN resourceTagMapping, Matcher = None, Tags = ts,
          Service = Some (Type job), Region = Some region\<rparr>)"

text \<open>
  Autoscaling groups, lines 203 and 204: the native ARN is split on \<^verbatim>\<open>:\<close> and the fields
  1, 3, 4 and 7 are put into \<^verbatim>\<open>arn:%s:autoscaling:%s:%s:%s\<close>. The operands are evaluated
  from left to right, each index checked.
\<close>

definition asgID :: "string \<Rightarrow> failure + string" where
  "asgID arn =
     (let parts = strings_Split arn (CHR '':'') in
      andThen (index parts 1) (\<lambda>p1.
      andThen (index parts 3) (\<lambda>p3.
      andThen (index parts 4) (\<lambda>p4.
      andThen (index parts 7) (\<lambda>p7.
      Inr (''arn:'' @ p1 @ '':autoscaling:'' @ p3 @ '':'' @ p4 @ '':'' @ p7))))))"

definition asgResource :: "job \<Rightarrow> string \<Rightarrow> AutoScalingGroup \<Rightarrow> failure + tagsData" where
  "asgResource job region asg =
     andThen (deref (AutoScalingGroupARN asg)) (\<lambda>arn.
     andThen (asgID arn) (\<lambda>ident.
     andThen (appendTags (Group_Tags asg) []) (\<lambda>ts.
     Inr \<lparr>ID = Some ident, Matcher = None, Tags = ts,
          Service = Some (Type job), Region = Some region\<rparr>)))"

text \<open>Transit-gateway attachments, line 249: \<^verbatim>\<open>fmt.Sprintf("%s/%s", *id, *attachmentId)\<close>.\<close>

definition tgwaResource :: "job \<Rightarrow> string \<Rightarrow> TransitGatewayAttachment \<Rightarrow> failure + tagsData" where
  "tgwaResource job region tgwa =
     andThen (deref (TransitGatewayId tgwa)) (\<lambda>gw.
     andThen (deref (TransitGatewayAttachmentId tgwa)) (\<lambda>att.
     andThen (appendTags (Attachment_Tags tgwa) []) (\<lambda>ts.
     Inr \<lparr>ID = Some (gw @ ''/'' @ att), Matcher = None, Tags = ts,
          Service = Some (Type job), Region = Some region\<rparr>)))"

subsection \<open>The page callbacks\<close>

text \<open>
  What the closure of a discovery callback holds: the local \<^verbatim>\<open>pageNum\<close>, the named result
  \<^verbatim>\<open>resources\<close> and the package-level counters.
\<close>

record closure =
  pageNum :: nat
  resources :: "tagsData list"
  globs :: globals

text \<open>
  The three discovery callbacks are one text up to the item type and the counter:
  \<^verbatim>\<open>pageNum++; counter.Inc(); for _, item := range page.Items { ... }\<close>.
  \<open>discoveryPage\<close> is that text; \<open>inc\<close> is the increment of the path's counter.
\<close>

definition discoveryPage ::
  "(globals \<Rightarrow> globals) \<Rightarrow> ('i \<Rightarrow> failure + tagsData) \<Rightarrow> tag list \<Rightarrow> 'i list \<Rightarrow> closure
     \<Rightarrow> failure + closure" where
  "discoveryPage inc mk searchTags page c =
     andThen (appendFiltered mk searchTags page (resources c)) (\<lambda>rs.
     Inr \<lparr>pageNum = pageNum c + 1, resources = rs, globs = inc (globs c)\<rparr>)"

definition incResourceGroupTaggingAPICounter :: "globals \<Rightarrow> globals" where
  "incResourceGroupTaggingAPICounter g =
     g\<lparr>resourceGroupTaggingAPICounter := resourceGroupTaggingAPICounter g + 1\<rparr>"

definition incAutoScalingAPICounter :: "globals \<Rightarrow> globals" where
  "incAutoScalingAPICounter g = g\<lparr>autoScalingAPICounter := autoScalingAPICounter g + 1\<rparr>"

definition incEc2APICounter :: "globals \<Rightarrow> globals" where
  "incEc2APICounter g = g\<lparr>ec2APICounter := ec2APICounter g + 1\<rparr>"

text \<open>Lines 135 to 155; the callback ends with \<^verbatim>\<open>return pageNum < 100\<close>.\<close>

definition getResourcesPage ::
  "job \<Rightarrow> string \<Rightarrow> ResourceTagMapping list \<Rightarrow> bool \<Rightarrow> closure \<Rightarrow> failure + (closure \<times> bool)" where
  "getResourcesPage job region page lastPage c =
     andThen (discoveryPage incResourceGroupTaggingAPICounter (mappingResource job region)
                (SearchTags job) page c)
       (\<lambda>c'. Inr (c', pageNum c' < 100))"

text \<open>Lines 195 to 218.\<close>

definition describeAutoScalingGroupsPage ::
  "job \<Rightarrow> string \<Rightarrow> AutoScalingGroup list \<Rightarrow> bool \<Rightarrow> closure \<Rightarrow> failure + (closure \<times> bool)" where
  "describeAutoScalingGroupsPage job region page morePages c =
     andThen (discoveryPage incAutoScalingAPICounter (asgResource job region)
                (SearchTags job) page c)
       (\<lambda>c'. Inr (c', pageNum c' < 100))"

text \<open>Lines 242 to 263.\<close>

definition describeTransitGatewayAttachmentsPage ::
  "job \<Rightarrow> string \<Rightarrow> TransitGatewayAttachment list \<Rightarrow> bool \<Rightarrow> closure
     \<Rightarrow> failure + (closure \<times> bool)" where
  "describeTransitGatewayAttachmentsPage job region page morePages c =
     andThen (discoveryPage incEc2APICounter (tgwaResource job region)
                (SearchTags job) page c)
       (\<lambda>c'. Inr (c', pageNum c' < 100))"

text \<open>
  Lines 230 to 234; the closure holds \<^verbatim>\<open>pageNum\<close> and \<^verbatim>\<open>output.Items\<close>, and
  \<^verbatim>\<open>maxPages\<close> is the constant of line 226.
\<close>

definition maxPages :: nat where
  "maxPages = 10"

definition getRestApisPage ::
  "RestApi list \<Rightarrow> bool \<Rightarrow> nat \<times> RestApi list \<Rightarrow> failure + ((nat \<times> RestApi list) \<times> bool)" where
  "getRestApisPage page lastPage c =
     (let pageNum' = fst c + 1
      in Inr ((pageNum', snd c @ page), pageNum' \<le> maxPages))"

subsection \<open>The autoscaling-group and transit-gateway-attachment paths\<close>

text \<open>
  A discovery returns the pair of the Go function, \<open>(resources, err)\<close>, with the globals
  as the call leaves them and the number of page requests it sent to its listing.

  Lines 191 to 219 and 238 to 264. The statement is \<^verbatim>\<open>return resources, client.XPages(...)\<close>,
  where \<^verbatim>\<open>resources\<close> is the named result the callback appends to: the call runs first
  and the variable is read when it has returned (the order of the gc compiler, under
  which these paths return what they accumulated).
\<close>

type_synonym discovered = "(tagsData list \<times> awsError option) \<times> globals \<times> nat"

definition getTaggedAutoscalingGroups ::
  "tagsInterface \<Rightarrow> job \<Rightarrow> string \<Rightarrow> globals \<Rightarrow> (failure + discovered) option" where
  "getTaggedAutoscalingGroups iface job region g =
     (case PagesWithContext (asgClient iface) (describeAutoScalingGroupsPage job region)
             \<lparr>pageNum = 0, resources = [], globs = g\<rparr> 0 of
        None \<Rightarrow> None
      | Some (Inl f) \<Rightarrow> Some (Inl f)
      | Some (Inr (c, err, n)) \<Rightarrow> Some (Inr ((resources c, err), globs c, n)))"

definition getTaggedTransitGatewayAttachments ::
  "tagsInterface \<Rightarrow> job \<Rightarrow> string \<Rightarrow> globals \<Rightarrow> (failure + discovered) option" where
  "getTaggedTransitGatewayAttachments iface job region g =
     (case PagesWithContext (ec2Client iface) (describeTransitGatewayAttachmentsPage job region)
             \<lparr>pageNum = 0, resources = [], globs = g\<rparr> 0 of
        None \<Rightarrow> None
      | Some (Inl f) \<Rightarrow> Some (Inl f)
      | Some (Inr (c, err, n)) \<Rightarrow> Some (Inr ((resources c, err), globs c, n)))"

subsection \<open>The REST-API listing and the API-gateway enrichment\<close>

text \<open>
  Lines 222 to 236: the counter is incremented once, the page size is 500, and the result
  is \<open>(output.Items, err)\<close>, with the globals and the number of page requests sent.
\<close>

definition getTaggedApiGateway ::
  "tagsInterface \<Rightarrow> globals
     \<Rightarrow> (failure + ((RestApi list \<times> awsError option) \<times> globals \<times> nat)) option" where
  "getTaggedApiGateway iface g =
     (let g' = g\<lparr>apiGatewayAPICounter := apiGatewayAPICounter g + 1\<rparr>;
          limit = 500
      in case PagesWithContext (apiGatewayClient iface limit) getRestApisPage (0, []) 0 of
           None \<Rightarrow> None
         | Some (Inl f) \<Rightarrow> Some (Inl f)
         | Some (Inr (c, err, n)) \<Rightarrow> Some (Inr ((snd c, err), g', n)))"

text \<open>
  Lines 171 to 175, the scan of the listing for one record: every item whose id equals
  \<open>restApiId\<close> assigns its \<^verbatim>\<open>Name\<close> pointer to \<^verbatim>\<open>r.Matcher\<close>; the scan does not stop at
  a match. The result is \<^verbatim>\<open>r.Matcher\<close> after the scan.
\<close>

fun scanRestApis :: "string \<Rightarrow> RestApi list \<Rightarrow> string option \<Rightarrow> failure + string option" where
  "scanRestApis restApiId [] matcher = Inr matcher"
| "scanRestApis restApiId (apiGateway # items) matcher =
     andThen (deref (RestApi_Id apiGateway)) (\<lambda>i.
     scanRestApis restApiId items (if i = restApiId then RestApi_Name apiGateway else matcher))"

text \<open>
  Lines 165 to 183, the loop over the discovered records, with \<^verbatim>\<open>filteredResources\<close>
  and the log lines written so far.
\<close>

fun enrichResources ::
  "tagsData list \<Rightarrow> RestApi list \<Rightarrow> tagsData list \<Rightarrow> logEntry list
     \<Rightarrow> failure + (tagsData list \<times> logEntry list)" where
  "enrichResources [] items filteredResources lg = Inr (filteredResources, lg)"
| "enrichResources (r # rs) items filteredResources lg =
     andThen (deref (ID r)) (\<lambda>ident.
       if strings_Contains ident ''/restapis'' then
         andThen (index (strings_Split ident (CHR ''/'')) 2) (\<lambda>restApiId.
         andThen (scanRestApis restApiId items (Matcher r)) (\<lambda>m.
           if m = None
           then enrichResources rs items filteredResources
                  (lg @ [CouldNotFindGateway ident restApiId])
           else enrichResources rs items (filteredResources @ [r\<lparr>Matcher := m\<rparr>]) lg))
       else enrichResources rs items filteredResources lg)"

subsection \<open>The registry and the entry point\<close>

text \<open>Lines 90 to 121.\<close>

definition allResourceTypesFilters :: "string \<rightharpoonup> string list" where
  "allResourceTypesFilters = map_of
     [(''alb'', [''elasticloadbalancing:loadbalancer/app'', ''elasticloadbalancing:targetgroup'']),
      (''apigateway'', [''apigateway'']),
      (''appsync'', [''appsync'']),
      (''cf'', [''cloudfront'']),
      (''dynamodb'', [''dynamodb:table'']),
      (''ebs'', [''ec2:volume'']),
      (''ec'', [''elasticache:cluster'']),
      (''ec2'', [''ec2:instance'']),
      (''ecs-svc'', [''ecs:cluster'', ''ecs:service'']),
      (''ecs-containerinsights'', [''ecs:cluster'', ''ecs:service'']),
      (''efs'', [''elasticfilesystem:file-system'']),
      (''elb'', [''elasticloadbalancing:loadbalancer'']),
      (''emr'', [''elasticmapreduce:cluster'']),
      (''es'', [''es:domain'']),
      (''firehose'', [''firehose'']),
      (''fsx'', [''fsx:file-system'']),
      (''kinesis'', [''kinesis:stream'']),
      (''lambda'', [''lambda:function'']),
      (''ngw'', [''ec2:natgateway'']),
      (''nlb'', [''elasticloadbalancing:loadbalancer/net'']),
      (''rds'', [''rds:db'']),
      (''redshift'', [''redshift:cluster'']),
      (''r53r'', [''route53resolver'']),
      (''s3'', [''s3'']),
      (''sfn'', [''states'']),
      (''sns'', [''sns'']),
      (''sqs'', [''sqs'']),
      (''tgw'', [''ec2:transit-gateway'']),
      (''vpn'', [''ec2:vpn-connection'']),
      (''kafka'', [''kafka:cluster''])]"

text \<open>
  Lines 82 to 187. After the tag search, an \<^verbatim>\<open>apigateway\<close> job lists the REST APIs whether
  or not the search failed: when the listing fails, its error is logged and returned with
  the records as discovered; otherwise the enriched records are returned with the error
  of the search.
\<close>

definition get :: "tagsInterface \<Rightarrow> job \<Rightarrow> string \<Rightarrow> globals \<Rightarrow> (failure + discovered) option" where
  "get iface job region g =
     (if Type job = ''asg'' then getTaggedAutoscalingGroups iface job region g
      else if Type job = ''tgwa'' then getTaggedTransitGatewayAttachments iface job region g
      else
        (case allResourceTypesFilters (Type job) of
           None \<Rightarrow> Some (Inl (LogFatal (''Not implemented resources:'' @ Type job)))
         | Some resourceTypeFilters \<Rightarrow>
             (case PagesWithContext (client iface resourceTypeFilters) (getResourcesPage job region)
                     \<lparr>pageNum = 0, resources = [], globs = g\<rparr> 0 of
                None \<Rightarrow> None
              | Some (Inl f) \<Rightarrow> Some (Inl f)
              | Some (Inr (c, resourcePages, n)) \<Rightarrow>
                  if Type job = ''apigateway'' then
                    (case getTaggedApiGateway iface (globs c) of
                       None \<Rightarrow> None
                     | Some (Inl f) \<Rightarrow> Some (Inl f)
                     | Some (Inr ((apiGateways, errGet), g', n')) \<Rightarrow>
                         (case errGet of
                            Some e \<Rightarrow>
                              Some (Inr ((resources c, Some e),
                                g'\<lparr>logged := logged g' @ [GetTaggedApiGatewayFailed e]\<rparr>, n))
                          | None \<Rightarrow>
                              (case enrichResources (resources c) apiGateways [] (logged g') of
                                 Inl f \<Rightarrow> Some (Inl f)
                               | Inr (filteredResources, lg) \<Rightarrow>
                                   Some (Inr ((filteredResources, resourcePages),
                                     g'\<lparr>logged := lg\<rparr>, n)))))
                  else Some (Inr ((resources c, resourcePages), globs c, n)))))"

subsection \<open>The metric materialiser\<close>

text \<open>
  The fields of \<^verbatim>\<open>PrometheusMetric\<close> that the materialiser sets; \<^verbatim>\<open>name\<close> and \<^verbatim>\<open>value\<close>
  point to fresh locals, and the value is always zero.
\<close>

record PrometheusMetric =
  name :: string
  labels :: "string \<rightharpoonup> string"
  val :: int

text \<open>
  Modelled from the spec: \<^verbatim>\<open>stringInSlice\<close> is defined in another file of the package.
  Spec, 4.7: the membership test of the per-service union is by value.
\<close>

definition stringInSlice :: "string \<Rightarrow> string list \<Rightarrow> bool" where
  "stringInSlice a xs = list_ex (\<lambda>b. b = a) xs"

text \<open>
  Lines 271 to 277. \<^verbatim>\<open>tagList\<close> is a Go map from service to its keys in first-seen order;
  reading an absent service gives the empty slice. \<^verbatim>\<open>*d.Service\<close> is evaluated once per
  tag of the record.
\<close>

fun addKeys :: "string \<Rightarrow> tag list \<Rightarrow> (string \<Rightarrow> string list) \<Rightarrow> (string \<Rightarrow> string list)" where
  "addKeys svc [] tagList = tagList"
| "addKeys svc (entry # es) tagList =
     addKeys svc es
       (if \<not> stringInSlice (Key entry) (tagList svc)
        then tagList(svc := tagList svc @ [Key entry]) else tagList)"

fun buildTagList ::
  "tagsData list \<Rightarrow> (string \<Rightarrow> string list) \<Rightarrow> failure + (string \<Rightarrow> string list)" where
  "buildTagList [] tagList = Inr tagList"
| "buildTagList (d # ds) tagList =
     (if Tags d = [] then buildTagList ds tagList
      else andThen (deref (Service d)) (\<lambda>svc. buildTagList ds (addKeys svc (Tags d) tagList)))"

text \<open>Lines 288 to 292.\<close>

fun setLabel :: "string \<Rightarrow> string \<Rightarrow> tag list \<Rightarrow> (string \<rightharpoonup> string) \<Rightarrow> (string \<rightharpoonup> string)" where
  "setLabel labelKey entry [] promLabels = promLabels"
| "setLabel labelKey entry (rTag # ts) promLabels =
     setLabel labelKey entry ts
       (if entry = Key rTag then promLabels(labelKey \<mapsto> Value rTag) else promLabels)"

text \<open>
  Lines 284 to 293. \<^verbatim>\<open>promString\<close> and \<^verbatim>\<open>promStringTag\<close>, the normalisations of a service
  and of a tag key into label-safe form, are defined in another file of the package: the
  materialiser takes them as parameters, and what is proved of it holds for any of them.
\<close>

fun tagLabels ::
  "(string \<Rightarrow> string) \<Rightarrow> string list \<Rightarrow> tag list \<Rightarrow> (string \<rightharpoonup> string) \<Rightarrow> (string \<rightharpoonup> string)" where
  "tagLabels promStringTag [] tags promLabels = promLabels"
| "tagLabels promStringTag (entry # es) tags promLabels =
     (let labelKey = ''tag_'' @ promStringTag entry
      in tagLabels promStringTag es tags (setLabel labelKey entry tags (promLabels(labelKey \<mapsto> ''''))))"

text \<open>Lines 280 to 302, one record; the value is \<^verbatim>\<open>float64(i)\<close> of an \<^verbatim>\<open>i\<close> left at zero.\<close>

definition metricOf ::
  "(string \<Rightarrow> string) \<Rightarrow> (string \<Rightarrow> string) \<Rightarrow> (string \<Rightarrow> string list) \<Rightarrow> tagsData
     \<Rightarrow> failure + PrometheusMetric" where
  "metricOf promString promStringTag tagList d =
     andThen (deref (Service d)) (\<lambda>svc.
     andThen (deref (ID d)) (\<lambda>ident.
     Inr \<lparr>name = ''aws_'' @ promString svc @ ''_info'',
          labels = tagLabels promStringTag (tagList svc) (Tags d) [''name'' \<mapsto> ident],
          val = 0\<rparr>))"

fun emitMetrics ::
  "(string \<Rightarrow> string) \<Rightarrow> (string \<Rightarrow> string) \<Rightarrow> (string \<Rightarrow> string list) \<Rightarrow> tagsData list
     \<Rightarrow> PrometheusMetric list \<Rightarrow> failure + PrometheusMetric list" where
  "emitMetrics promString promStringTag tagList [] output = Inr output"
| "emitMetrics promString promStringTag tagList (d # ds) output =
     andThen (metricOf promString promStringTag tagList d) (\<lambda>p.
     emitMetrics promString promStringTag tagList ds (output @ [p]))"

text \<open>Lines 266 to 308.\<close>

definition migrateTagsToPrometheus ::
  "(string \<Rightarrow> string) \<Rightarrow> (string \<Rightarrow> string) \<Rightarrow> tagsData list \<Rightarrow> failure + PrometheusMetric list" where
  "migrateTagsToPrometheus promString promStringTag tagData =
     andThen (buildTagList tagData (\<lambda>svc. [])) (\<lambda>tagList.
     emitMetrics promString promStringTag tagList tagData [])"

subsection \<open>Finite views of a paginated endpoint\<close>

text \<open>
  The first \<open>n\<close> pages a source delivers, the error of the source if one of its first
  \<open>n\<close> requests fails, the number of requests sent while at
  most \<open>n\<close> pages are asked for, and the source cut after \<open>n\<close> pages. They are used to state what a page loop with
  a cap has seen.
\<close>

primrec firstPages :: "nat \<Rightarrow> 'p pages \<Rightarrow> 'p list" where
  "firstPages 0 src = []"
| "firstPages (Suc n) src = (case src of Page p rest \<Rightarrow> p # firstPages n rest | _ \<Rightarrow> [])"

primrec errorWithin :: "nat \<Rightarrow> 'p pages \<Rightarrow> awsError option" where
  "errorWithin 0 src = None"
| "errorWithin (Suc n) src =
     (case src of NoMorePages \<Rightarrow> None | RequestFails e \<Rightarrow> Some e
      | Page p rest \<Rightarrow> errorWithin n rest)"

primrec requestsWithin :: "nat \<Rightarrow> 'p pages \<Rightarrow> nat" where
  "requestsWithin 0 src = 0"
| "requestsWithin (Suc n) src =
     (case src of NoMorePages \<Rightarrow> 0 | RequestFails e \<Rightarrow> 1
      | Page p rest \<Rightarrow> Suc (requestsWithin n rest))"

primrec takePages :: "nat \<Rightarrow> 'p pages \<Rightarrow> 'p pages" where
  "takePages 0 src = NoMorePages"
| "takePages (Suc n) src =
     (case src of NoMorePages \<Rightarrow> NoMorePages | RequestFails e \<Rightarrow> RequestFails e
      | Page p rest \<Rightarrow> Page p (takePages n rest))"

text \<open>A source yields more than \<open>n\<close> pages when its first \<open>n + 1\<close> requests all deliver a page.\<close>

definition yieldsMoreThan :: "nat \<Rightarrow> 'p pages \<Rightarrow> bool" where
  "yieldsMoreThan n src = (length (firstPages (Suc n) src) = Suc n)"

text \<open>The pages of a list, followed by \<open>rest\<close>; and the provider that never signals a last page.\<close>

primrec pagesOf :: "'p list \<Rightarrow> 'p pages \<Rightarrow> 'p pages" where
  "pagesOf [] rest = rest"
| "pagesOf (p # ps) rest = Page p (pagesOf ps rest)"

primcorec endless :: "'p \<Rightarrow> 'p pages" where
  "endless p = Page p (endless p)"

text \<open>A callback body run over a list of pages, stopping at the first panic.\<close>

fun foldPages :: "('p \<Rightarrow> 's \<Rightarrow> failure + 's) \<Rightarrow> 'p list \<Rightarrow> 's \<Rightarrow> failure + 's" where
  "foldPages body [] st = Inr st"
| "foldPages body (p # ps) st = andThen (body p st) (foldPages body ps)"

subsection \<open>Notions used to state the properties\<close>

text \<open>
  Modelled from the spec: \<^verbatim>\<open>promStringTag\<close>, the normalisation of a tag key, is defined
  in another file of the package. Spec, 4.7: the normalisation of service and key strings into
  label-safe form is lowercasing and replacing disallowed characters. The spec leaves the
  allowed characters and the replacement open; they are taken to be the letters, the
  digits and the underscore, and the underscore. The materialiser does not depend on this
  definition, which only instantiates its parameter at concrete inputs.
\<close>

definition promStringTag :: "string \<Rightarrow> string" where
  "promStringTag text =
     map (\<lambda>c. case map_of (zip ''ABCDEFGHIJKLMNOPQRSTUVWXYZ'' ''abcdefghijklmnopqrstuvwxyz'') c of
                Some l \<Rightarrow> l
              | None \<Rightarrow> if c \<in> set ''abcdefghijklmnopqrstuvwxyz0123456789_'' then c else CHR ''_'')
       text"

text \<open>
  Modelled from the spec: \<^verbatim>\<open>promString\<close>, the normalisation of a service, is defined
  in another file of the package. Spec, 4.7 names one normalisation for service and key
  strings, the one above.
\<close>

definition promString :: "string \<Rightarrow> string" where
  "promString text = promStringTag text"

text \<open>The tag keys of the records of one service, in the order of the batch.\<close>

definition serviceKeys :: "string \<Rightarrow> tagsData list \<Rightarrow> string list" where
  "serviceKeys svc tagData =
     concat (map (\<lambda>d. map Key (Tags d)) (filter (\<lambda>d. Service d = Some svc) tagData))"

text \<open>
  The REST-API id embedded in an identifier, its third \<^verbatim>\<open>/\<close>-delimited segment, and the
  listed APIs that carry a given id.
\<close>

definition embeddedRestApiId :: "string \<Rightarrow> string" where
  "embeddedRestApiId ident = strings_Split ident (CHR ''/'') ! 2"

definition listedWithId :: "string \<Rightarrow> RestApi list \<Rightarrow> RestApi list" where
  "listedWithId restApiId items = filter (\<lambda>a. RestApi_Id a = Some restApiId) items"

text \<open>
  For a discovered record: whether its identifier contains \<^verbatim>\<open>/restapis\<close>, and the REST-API
  id embedded in it.
\<close>

definition hasRestApis :: "tagsData \<Rightarrow> bool" where
  "hasRestApis r = (case ID r of None \<Rightarrow> False | Some ident \<Rightarrow> strings_Contains ident ''/restapis'')"

definition restApiIdOf :: "tagsData \<Rightarrow> string" where
  "restApiIdOf r = (case ID r of None \<Rightarrow> [] | Some ident \<Rightarrow> embeddedRestApiId ident)"

section \<open>Properties\<close>

subsection \<open>The page loop under a page cap\<close>

lemma andThen_simps [simp]:
  "andThen (Inl f) k = Inl f"
  "andThen (Inr v) k = k v"
  by (simp_all add: andThen_def)

lemma PagesWithContext_NoMorePages [simp]:
  "PagesWithContext NoMorePages fn st n = Some (Inr (st, None, n))"
  by (subst PagesWithContext.simps) simp

lemma PagesWithContext_RequestFails [simp]:
  "PagesWithContext (RequestFails e) fn st n = Some (Inr (st, Some e, Suc n))"
  by (subst PagesWithContext.simps) simp

lemma PagesWithContext_Page:
  "PagesWithContext (Page p rest) fn st n =
     (case fn p (case rest of NoMorePages \<Rightarrow> True | _ \<Rightarrow> False) st of
        Inl f \<Rightarrow> Some (Inl f)
      | Inr (st', continue) \<Rightarrow>
          if continue then PagesWithContext rest fn st' (Suc n)
          else Some (Inr (st', None, Suc n)))"
  by (subst PagesWithContext.simps) simp

text \<open>
  The loop by itself is not bounded: against the provider that never signals a last page, a
  callback that always asks for the next page never returns.
\<close>

lemma endless_never_returns:
  "PagesWithContext (endless (p :: 'p)) (\<lambda>page lastPage st. Inr (st, True)) (st :: 's) n = None"
proof (rule ccontr)
  let ?always = "(\<lambda>page lastPage st. Inr (st, True)) :: 'p \<Rightarrow> bool \<Rightarrow> 's \<Rightarrow> failure + 's \<times> bool"
  assume "PagesWithContext (endless p) ?always st n \<noteq> None"
  then obtain y where y: "PagesWithContext (endless p) ?always st n = Some y"
    by auto
  have "endless p = endless p \<longrightarrow> ?always = ?always \<longrightarrow> False"
  proof (rule PagesWithContext.raw_induct
      [where P = "\<lambda>src fn st n y. src = endless p \<longrightarrow> fn = ?always \<longrightarrow> False", OF _ y])
    fix loop and src :: "'p pages" and fn :: "'p \<Rightarrow> bool \<Rightarrow> 's \<Rightarrow> failure + 's \<times> bool"
      and st n r
    assume IH: "\<And>src fn st n y. loop src fn st n = Some y \<Longrightarrow>
        src = endless p \<longrightarrow> fn = ?always \<longrightarrow> False"
      and step: "(case src of NoMorePages \<Rightarrow> Some (Inr (st, None, n))
        | RequestFails e \<Rightarrow> Some (Inr (st, Some e, Suc n))
        | Page page rest \<Rightarrow>
            case fn page (case rest of NoMorePages \<Rightarrow> True | _ \<Rightarrow> False) st of
              Inl f \<Rightarrow> Some (Inl f)
            | Inr (st', continue) \<Rightarrow>
                if continue then loop rest fn st' (Suc n)
                else Some (Inr (st', None, Suc n))) = Some r"
    show "src = endless p \<longrightarrow> fn = ?always \<longrightarrow> False"
    proof (intro impI)
      assume s: "src = endless p" and f: "fn = ?always"
      have "src = Page p (endless p)" using s endless.ctr [of p] by simp
      with step f have "loop (endless p) fn st (Suc n) = Some r" by simp
      from IH [OF this] f show False by simp
    qed
  qed
  then show False by simp
qed

text \<open>
  A callback that counts its pages in \<open>num\<close> and answers \<open>num < cap\<close> ends the loop after
  at most \<open>cap\<close> pages, against any source: the call returns, and what it returns is
  determined by the first \<open>cap\<close> responses.
\<close>

lemma PagesWithContext_capped:
  assumes shape: "\<And>p l st. cb p l st = andThen (body p st) (\<lambda>st'. Inr (st', num st' < cap))"
    and step: "\<And>p st st'. body p st = Inr st' \<Longrightarrow> num st' = Suc (num st)"
    and below: "num st < cap"
  shows "PagesWithContext src cb st n =
           Some (case foldPages body (firstPages (cap - num st) src) st of
                   Inl f \<Rightarrow> Inl f
                 | Inr st' \<Rightarrow> Inr (st', errorWithin (cap - num st) src,
                                   n + requestsWithin (cap - num st) src))"
  using below
proof (induction "cap - num st" arbitrary: src st n)
  case 0
  then show ?case by simp
next
  case (Suc k)
  have k: "cap - num st = Suc k" using Suc.hyps(2) by simp
  show ?case
  proof (cases src)
    case NoMorePages
    then show ?thesis by (simp add: k)
  next
    case (RequestFails e)
    then show ?thesis by (simp add: k)
  next
    case (Page p rest)
    show ?thesis
    proof (cases "body p st")
      case (Inl f)
      then show ?thesis by (simp add: Page k PagesWithContext_Page shape)
    next
      case (Inr st')
      have num: "num st' = Suc (num st)" by (rule step [OF Inr])
      show ?thesis
      proof (cases "num st' < cap")
        case True
        have k': "k = cap - num st'" using k num by simp
        have "PagesWithContext src cb st n = PagesWithContext rest cb st' (Suc n)"
          using True Inr by (simp add: Page PagesWithContext_Page shape)
        also note Suc.hyps(1) [OF k' True, of rest "Suc n"]
        finally show ?thesis
          using Inr by (simp add: Page k k' [symmetric] split: sum.splits)
      next
        case False
        then have "k = 0" using k num by simp
        then show ?thesis using False Inr k by (simp add: Page PagesWithContext_Page shape)
      qed
    qed
  qed
qed

subsection \<open>Finite views\<close>

lemma firstPages_takePages [simp]: "firstPages n (takePages n src) = firstPages n src"
  by (induction n arbitrary: src) (auto split: pages.splits)

lemma errorWithin_takePages [simp]: "errorWithin n (takePages n src) = errorWithin n src"
  by (induction n arbitrary: src) (auto split: pages.splits)

lemma requestsWithin_takePages [simp]: "requestsWithin n (takePages n src) = requestsWithin n src"
  by (induction n arbitrary: src) (auto split: pages.splits)

lemma requestsWithin_le: "requestsWithin n src \<le> n"
  by (induction n arbitrary: src) (auto split: pages.splits)

lemma firstPages_full:
  "length (firstPages (Suc n) src) = Suc n \<Longrightarrow>
     length (firstPages n src) = n \<and> errorWithin n src = None \<and> requestsWithin n src = n"
  by (induction n arbitrary: src) (auto split: pages.splits)

lemma yieldsMoreThan_full:
  "yieldsMoreThan n src \<Longrightarrow>
     length (firstPages n src) = n \<and> errorWithin n src = None \<and> requestsWithin n src = n"
  unfolding yieldsMoreThan_def by (rule firstPages_full)

lemma firstPages_pagesOf:
  "firstPages n (pagesOf ps rest) =
     (if n \<le> length ps then take n ps else ps @ firstPages (n - length ps) rest)"
proof (induction ps arbitrary: n)
  case Nil
  then show ?case by simp
next
  case (Cons p ps)
  then show ?case by (cases n) auto
qed

lemma errorWithin_pagesOf:
  "errorWithin n (pagesOf ps rest) =
     (if n \<le> length ps then None else errorWithin (n - length ps) rest)"
proof (induction ps arbitrary: n)
  case Nil
  then show ?case by simp
next
  case (Cons p ps)
  then show ?case by (cases n) auto
qed

lemma requestsWithin_pagesOf:
  "requestsWithin n (pagesOf ps rest) =
     (if n \<le> length ps then n else length ps + requestsWithin (n - length ps) rest)"
proof (induction ps arbitrary: n)
  case Nil
  then show ?case by simp
next
  case (Cons p ps)
  then show ?case by (cases n) auto
qed

lemma firstPages_endless [simp]: "firstPages n (endless p) = replicate n p"
proof (induction n)
  case 0
  then show ?case by simp
next
  case (Suc n)
  have "firstPages (Suc n) (endless p) = firstPages (Suc n) (Page p (endless p))"
    by (subst endless.ctr) (rule refl)
  then show ?case using Suc by simp
qed

lemma yieldsMoreThan_endless [simp]: "yieldsMoreThan n (endless p)"
  by (simp add: yieldsMoreThan_def)

lemma appendFiltered_append:
  "appendFiltered mk st (xs @ ys) rs = andThen (appendFiltered mk st xs rs) (appendFiltered mk st ys)"
proof (induction xs arbitrary: rs)
  case Nil
  then show ?case by simp
next
  case (Cons x xs)
  then show ?case by (cases "mk x") simp_all
qed

lemma foldPages_discoveryPage:
  "foldPages (discoveryPage inc mk st) ps c =
     andThen (appendFiltered mk st (concat ps) (resources c)) (\<lambda>rs.
       Inr \<lparr>pageNum = pageNum c + length ps, resources = rs,
            globs = (inc ^^ length ps) (globs c)\<rparr>)"
proof (induction ps arbitrary: c)
  case Nil
  then show ?case by simp
next
  case (Cons p ps)
  show ?case
  proof (cases "appendFiltered mk st p (resources c)")
    case (Inl f)
    then have "discoveryPage inc mk st p c = Inl f"
      by (simp add: discoveryPage_def)
    then show ?thesis
      using Inl by (simp add: appendFiltered_append)
  next
    case (Inr rs)
    then have "discoveryPage inc mk st p c =
        Inr \<lparr>pageNum = pageNum c + 1, resources = rs, globs = inc (globs c)\<rparr>"
      by (simp add: discoveryPage_def)
    then show ?thesis
      using Inr by (simp add: appendFiltered_append Cons.IH funpow_swap1)
  qed
qed

text \<open>What a discovery loop returns, against any source.\<close>

lemma discovery_loop:
  assumes cb: "\<And>p l c. cb p l c = andThen (discoveryPage inc mk st p c) (\<lambda>c'. Inr (c', pageNum c' < 100))"
  shows "PagesWithContext src cb \<lparr>pageNum = 0, resources = [], globs = g\<rparr> 0 =
     Some (case appendFiltered mk st (concat (firstPages 100 src)) [] of
             Inl f \<Rightarrow> Inl f
           | Inr rs \<Rightarrow>
               Inr (\<lparr>pageNum = length (firstPages 100 src), resources = rs,
                     globs = (inc ^^ length (firstPages 100 src)) g\<rparr>,
                    errorWithin 100 src, requestsWithin 100 src))"
proof -
  have step: "\<And>p c c'. discoveryPage inc mk st p c = Inr c' \<Longrightarrow> pageNum c' = Suc (pageNum c)"
    by (auto simp: discoveryPage_def andThen_def split: sum.splits)
  have "PagesWithContext src cb \<lparr>pageNum = 0, resources = [], globs = g\<rparr> 0 =
      Some (case foldPages (discoveryPage inc mk st)
                   (firstPages (100 - pageNum \<lparr>pageNum = 0, resources = [], globs = g\<rparr>) src)
                   \<lparr>pageNum = 0, resources = [], globs = g\<rparr> of
              Inl f \<Rightarrow> Inl f
            | Inr st' \<Rightarrow> Inr (st', errorWithin (100 - pageNum \<lparr>pageNum = 0, resources = [], globs = g\<rparr>) src,
                   0 + requestsWithin (100 - pageNum \<lparr>pageNum = 0, resources = [], globs = g\<rparr>) src))"
    by (rule PagesWithContext_capped [where num = pageNum and body = "discoveryPage inc mk st"])
       (simp_all add: cb step)
  then show ?thesis
    by (simp add: foldPages_discoveryPage split: sum.splits)
qed

subsection \<open>What each path returns, in terms of the first responses of its source\<close>

lemma registry_not_special:
  "allResourceTypesFilters t = Some fs \<Longrightarrow> t \<noteq> ''asg'' \<and> t \<noteq> ''tgwa''"
  by (auto simp: allResourceTypesFilters_def)

lemma getTaggedAutoscalingGroups_eq:
  "getTaggedAutoscalingGroups iface job region g =
     Some (case appendFiltered (asgResource job region) (SearchTags job)
                  (concat (firstPages 100 (asgClient iface))) [] of
             Inl f \<Rightarrow> Inl f
           | Inr rs \<Rightarrow>
               Inr ((rs, errorWithin 100 (asgClient iface)),
                    (incAutoScalingAPICounter ^^ length (firstPages 100 (asgClient iface))) g,
                    requestsWithin 100 (asgClient iface)))"
  unfolding getTaggedAutoscalingGroups_def
  by (subst discovery_loop [where inc = incAutoScalingAPICounter
        and mk = "asgResource job region" and st = "SearchTags job"])
     (simp_all add: describeAutoScalingGroupsPage_def split: sum.splits)

lemma getTaggedTransitGatewayAttachments_eq:
  "getTaggedTransitGatewayAttachments iface job region g =
     Some (case appendFiltered (tgwaResource job region) (SearchTags job)
                  (concat (firstPages 100 (ec2Client iface))) [] of
             Inl f \<Rightarrow> Inl f
           | Inr rs \<Rightarrow>
               Inr ((rs, errorWithin 100 (ec2Client iface)),
                    (incEc2APICounter ^^ length (firstPages 100 (ec2Client iface))) g,
                    requestsWithin 100 (ec2Client iface)))"
  unfolding getTaggedTransitGatewayAttachments_def
  by (subst discovery_loop [where inc = incEc2APICounter
        and mk = "tgwaResource job region" and st = "SearchTags job"])
     (simp_all add: describeTransitGatewayAttachmentsPage_def split: sum.splits)

lemma getResources_loop:
  "PagesWithContext src (getResourcesPage job region) \<lparr>pageNum = 0, resources = [], globs = g\<rparr> 0 =
     Some (case appendFiltered (mappingResource job region) (SearchTags job)
                  (concat (firstPages 100 src)) [] of
             Inl f \<Rightarrow> Inl f
           | Inr rs \<Rightarrow>
               Inr (\<lparr>pageNum = length (firstPages 100 src), resources = rs,
                     globs = (incResourceGroupTaggingAPICounter ^^ length (firstPages 100 src)) g\<rparr>,
                    errorWithin 100 src, requestsWithin 100 src))"
  by (rule discovery_loop) (simp add: getResourcesPage_def)

lemma getTaggedApiGateway_eq:
  "getTaggedApiGateway iface g =
     Some (Inr ((concat (firstPages 11 (apiGatewayClient iface 500)),
                 errorWithin 11 (apiGatewayClient iface 500)),
                g\<lparr>apiGatewayAPICounter := apiGatewayAPICounter g + 1\<rparr>,
                requestsWithin 11 (apiGatewayClient iface 500)))"
proof -
  let ?body = "\<lambda>(p :: RestApi list) (c :: nat \<times> RestApi list).
     (Inr (Suc (fst c), snd c @ p) :: failure + nat \<times> RestApi list)"
  have fold: "foldPages ?body ps c = Inr (fst c + length ps, snd c @ concat ps)" for ps c
    by (induction ps arbitrary: c) simp_all
  have "PagesWithContext (apiGatewayClient iface 500) getRestApisPage (0, []) 0 =
      Some (case foldPages ?body (firstPages (11 - fst (0::nat, [] :: RestApi list))
                   (apiGatewayClient iface 500)) (0, []) of
              Inl f \<Rightarrow> Inl f
            | Inr st' \<Rightarrow> Inr (st', errorWithin (11 - fst (0::nat, [] :: RestApi list))
                   (apiGatewayClient iface 500),
                   0 + requestsWithin (11 - fst (0::nat, [] :: RestApi list))
                   (apiGatewayClient iface 500)))"
    by (rule PagesWithContext_capped [where num = fst and body = ?body])
       (auto simp: getRestApisPage_def maxPages_def Let_def)
  then show ?thesis
    by (simp add: getTaggedApiGateway_def fold)
qed

lemma get_asg: "Type job = ''asg'' \<Longrightarrow> get iface job region g = getTaggedAutoscalingGroups iface job region g"
  by (simp add: get_def)

lemma get_tgwa: "Type job = ''tgwa'' \<Longrightarrow> get iface job region g = getTaggedTransitGatewayAttachments iface job region g"
  by (simp add: get_def)

lemma get_generic:
  assumes "allResourceTypesFilters (Type job) = Some fs" and "Type job \<noteq> ''apigateway''"
  shows "get iface job region g =
     Some (case appendFiltered (mappingResource job region) (SearchTags job)
                  (concat (firstPages 100 (client iface fs))) [] of
             Inl f \<Rightarrow> Inl f
           | Inr rs \<Rightarrow>
               Inr ((rs, errorWithin 100 (client iface fs)),
                    (incResourceGroupTaggingAPICounter ^^ length (firstPages 100 (client iface fs))) g,
                    requestsWithin 100 (client iface fs)))"
  using assms registry_not_special [OF assms(1)]
  by (simp add: get_def getResources_loop split: sum.splits)

lemma get_apigateway:
  assumes "Type job = ''apigateway''"
  shows "get iface job region g =
     (case appendFiltered (mappingResource job region) (SearchTags job)
                  (concat (firstPages 100 (client iface [''apigateway'']))) [] of
        Inl f \<Rightarrow> Some (Inl f)
      | Inr rs \<Rightarrow>
          (let g' = ((incResourceGroupTaggingAPICounter ^^
                        length (firstPages 100 (client iface [''apigateway'']))) g)
                     \<lparr>apiGatewayAPICounter := apiGatewayAPICounter g + 1\<rparr>;
               n = requestsWithin 100 (client iface [''apigateway''])
           in case errorWithin 11 (apiGatewayClient iface 500) of
                Some e \<Rightarrow>
                  Some (Inr ((rs, Some e),
                     g'\<lparr>logged := logged g' @ [GetTaggedApiGatewayFailed e]\<rparr>, n))
              | None \<Rightarrow>
                  (case enrichResources rs (concat (firstPages 11 (apiGatewayClient iface 500)))
                          [] (logged g') of
                     Inl f \<Rightarrow> Some (Inl f)
                   | Inr (filteredResources, lg) \<Rightarrow>
                       Some (Inr ((filteredResources,
                                   errorWithin 100 (client iface [''apigateway''])),
                                  g'\<lparr>logged := lg\<rparr>, n)))))"
proof -
  have reg: "allResourceTypesFilters ''apigateway'' = Some [''apigateway'']"
    by (simp add: allResourceTypesFilters_def)
  have cnt: "apiGatewayAPICounter ((incResourceGroupTaggingAPICounter ^^ k) g) = apiGatewayAPICounter g" for k
    by (induction k) (simp_all add: incResourceGroupTaggingAPICounter_def)
  show ?thesis
    using assms
    by (simp add: get_def reg getResources_loop getTaggedApiGateway_eq cnt Let_def
             split: sum.splits option.splits)
qed

subsection \<open>The autoscaling-group identifier\<close>

lemma asgID_eq:
  assumes "8 \<le> length (strings_Split arn (CHR '':''))"
  shows "asgID arn =
     Inr (''arn:'' @ strings_Split arn (CHR '':'') ! 1 @ '':autoscaling:'' @
          strings_Split arn (CHR '':'') ! 3 @ '':'' @ strings_Split arn (CHR '':'') ! 4 @
          '':'' @ strings_Split arn (CHR '':'') ! 7)"
  using assms by (simp add: asgID_def index_def Let_def)

lemma asgID_short:
  assumes "length (strings_Split arn (CHR '':'')) < 8"
  shows "asgID arn =
     Inl (IndexOutOfRange
            (if length (strings_Split arn (CHR '':'')) \<le> 1 then 1
             else if length (strings_Split arn (CHR '':'')) \<le> 3 then 3
             else if length (strings_Split arn (CHR '':'')) \<le> 4 then 4 else 7)
            (length (strings_Split arn (CHR '':''))))"
  using assms by (simp add: asgID_def index_def Let_def)

lemma appendFiltered_panics:
  assumes "x \<in> set items" and "mk x = Inl f"
  shows "\<exists>f'. appendFiltered mk st items rs = Inl f'"
  using assms
proof (induction items arbitrary: rs)
  case Nil
  then show ?case by simp
next
  case (Cons y ys)
  then show ?case by (cases "mk y") auto
qed

lemma asg_short_arn:
  assumes "AutoScalingGroupARN asg = Some arn"
    and "length (strings_Split arn (CHR '':'')) < 8"
  shows "(\<exists>i. asgResource job region asg =
             Inl (IndexOutOfRange i (length (strings_Split arn (CHR '':'')))))
       \<and> (asg \<in> set (concat (firstPages 100 (asgClient iface))) \<longrightarrow>
            (\<exists>f. getTaggedAutoscalingGroups iface job region g = Some (Inl f)))
       \<and> (\<forall>groups rest. asgClient iface = Page (asg # groups) rest \<longrightarrow>
            (\<exists>i. getTaggedAutoscalingGroups iface job region g =
                   Some (Inl (IndexOutOfRange i (length (strings_Split arn (CHR '':'')))))))"
proof -
  obtain i where i: "asgResource job region asg =
      Inl (IndexOutOfRange i (length (strings_Split arn (CHR '':''))))"
    using assms by (simp add: asgResource_def deref_def asgID_short)
  have "\<exists>f. getTaggedAutoscalingGroups iface job region g = Some (Inl f)"
    if mem: "asg \<in> set (concat (firstPages 100 (asgClient iface)))"
  proof -
    obtain f where "appendFiltered (asgResource job region) (SearchTags job)
        (concat (firstPages 100 (asgClient iface))) [] = Inl f"
      using appendFiltered_panics [where mk = "asgResource job region", OF mem i] by blast
    then show ?thesis by (simp add: getTaggedAutoscalingGroups_eq)
  qed
  moreover have "getTaggedAutoscalingGroups iface job region g =
      Some (Inl (IndexOutOfRange i (length (strings_Split arn (CHR '':'')))))"
    if src: "asgClient iface = Page (asg # groups) rest" for groups rest
  proof -
    have "firstPages 100 (asgClient iface) = (asg # groups) # firstPages 99 rest"
      using src by (simp add: numeral_eq_Suc)
    then show ?thesis by (simp add: getTaggedAutoscalingGroups_eq i)
  qed
  ultimately show ?thesis using i by blast
qed

subsection \<open>The entry point under the page cap\<close>

lemma incAutoScalingAPICounter_funpow:
  "(incAutoScalingAPICounter ^^ k) g = g\<lparr>autoScalingAPICounter := autoScalingAPICounter g + k\<rparr>"
  by (induction k) (simp_all add: incAutoScalingAPICounter_def)

lemma incEc2APICounter_funpow:
  "(incEc2APICounter ^^ k) g = g\<lparr>ec2APICounter := ec2APICounter g + k\<rparr>"
  by (induction k) (simp_all add: incEc2APICounter_def)

lemma incResourceGroupTaggingAPICounter_funpow:
  "(incResourceGroupTaggingAPICounter ^^ k) g =
     g\<lparr>resourceGroupTaggingAPICounter := resourceGroupTaggingAPICounter g + k\<rparr>"
  by (induction k) (simp_all add: incResourceGroupTaggingAPICounter_def)

lemma get_returns: "\<exists>out. get iface job region g = Some out"
proof -
  consider "Type job = ''asg''" | "Type job = ''tgwa''"
    | "Type job \<noteq> ''asg''" "Type job \<noteq> ''tgwa''" "allResourceTypesFilters (Type job) = None"
    | fs where "allResourceTypesFilters (Type job) = Some fs" "Type job \<noteq> ''apigateway''"
    | "Type job = ''apigateway''"
    by (cases "allResourceTypesFilters (Type job)") auto
  then show ?thesis
  proof cases
    case 1
    then show ?thesis by (simp add: get_asg getTaggedAutoscalingGroups_eq)
  next
    case 2
    then show ?thesis by (simp add: get_tgwa getTaggedTransitGatewayAttachments_eq)
  next
    case 3
    then show ?thesis by (simp add: get_def)
  next
    case 4
    then show ?thesis by (simp add: get_generic)
  next
    case 5
    then show ?thesis
      by (simp add: get_apigateway Let_def split: sum.splits option.splits prod.splits)
  qed
qed

lemma get_requests:
  assumes "get iface job region g = Some (Inr ((rs, e), g', n))"
  shows "n \<le> 100"
proof -
  consider "Type job = ''asg''" | "Type job = ''tgwa''"
    | "Type job \<noteq> ''asg''" "Type job \<noteq> ''tgwa''" "allResourceTypesFilters (Type job) = None"
    | fs where "allResourceTypesFilters (Type job) = Some fs" "Type job \<noteq> ''apigateway''"
    | "Type job = ''apigateway''"
    by (cases "allResourceTypesFilters (Type job)") auto
  then show ?thesis
  proof cases
    case 1
    then show ?thesis using assms requestsWithin_le [of 100 "asgClient iface"]
      by (auto simp: get_asg getTaggedAutoscalingGroups_eq split: sum.splits)
  next
    case 2
    then show ?thesis using assms requestsWithin_le [of 100 "ec2Client iface"]
      by (auto simp: get_tgwa getTaggedTransitGatewayAttachments_eq split: sum.splits)
  next
    case 3
    then show ?thesis using assms by (simp add: get_def)
  next
    case 4
    then show ?thesis using assms requestsWithin_le [of 100 "client iface fs"]
      by (auto simp: get_generic split: sum.splits)
  next
    case 5
    then show ?thesis using assms requestsWithin_le [of 100 "client iface [''apigateway'']"]
      by (auto simp: get_apigateway Let_def split: sum.splits option.splits prod.splits)
  qed
qed

lemma get_asg_cap:
  assumes "Type job = ''asg''" and "yieldsMoreThan 100 (asgClient iface)"
  shows "get iface job region g
           = get (iface\<lparr>asgClient := takePages 100 (asgClient iface)\<rparr>) job region g"
    and "get iface job region g =
           Some (case appendFiltered (asgResource job region) (SearchTags job)
                        (concat (firstPages 100 (asgClient iface))) [] of
                   Inl f \<Rightarrow> Inl f
                 | Inr rs \<Rightarrow>
                     Inr ((rs, None),
                          g\<lparr>autoScalingAPICounter := autoScalingAPICounter g + 100\<rparr>, 100))"
  using assms(1) yieldsMoreThan_full [OF assms(2)]
  by (simp_all add: get_asg getTaggedAutoscalingGroups_eq incAutoScalingAPICounter_funpow
        cong: sum.case_cong)

lemma get_tgwa_cap:
  assumes "Type job = ''tgwa''" and "yieldsMoreThan 100 (ec2Client iface)"
  shows "get iface job region g
           = get (iface\<lparr>ec2Client := takePages 100 (ec2Client iface)\<rparr>) job region g"
    and "get iface job region g =
           Some (case appendFiltered (tgwaResource job region) (SearchTags job)
                        (concat (firstPages 100 (ec2Client iface))) [] of
                   Inl f \<Rightarrow> Inl f
                 | Inr rs \<Rightarrow>
                     Inr ((rs, None), g\<lparr>ec2APICounter := ec2APICounter g + 100\<rparr>, 100))"
  using assms(1) yieldsMoreThan_full [OF assms(2)]
  by (simp_all add: get_tgwa getTaggedTransitGatewayAttachments_eq incEc2APICounter_funpow
        cong: sum.case_cong)

lemma get_generic_cap:
  assumes reg: "allResourceTypesFilters (Type job) = Some fs"
    and more: "yieldsMoreThan 100 (client iface fs)"
  shows "get iface job region g
           = get (iface\<lparr>client := \<lambda>f. takePages 100 (client iface f)\<rparr>) job region g"
    and "\<forall>rs e g' n. get iface job region g = Some (Inr ((rs, e), g', n)) \<longrightarrow>
           n = 100 \<and> resourceGroupTaggingAPICounter g' = resourceGroupTaggingAPICounter g + 100"
    and "Type job \<noteq> ''apigateway'' \<longrightarrow>
         get iface job region g =
           Some (case appendFiltered (mappingResource job region) (SearchTags job)
                        (concat (firstPages 100 (client iface fs))) [] of
                   Inl f \<Rightarrow> Inl f
                 | Inr rs \<Rightarrow>
                     Inr ((rs, None),
                          g\<lparr>resourceGroupTaggingAPICounter :=
                               resourceGroupTaggingAPICounter g + 100\<rparr>, 100))"
proof -
  note full = yieldsMoreThan_full [OF more]
  show "get iface job region g
           = get (iface\<lparr>client := \<lambda>f. takePages 100 (client iface f)\<rparr>) job region g"
  proof (cases "Type job = ''apigateway''")
    case True
    then have "fs = [''apigateway'']" using reg by (simp add: allResourceTypesFilters_def)
    then show ?thesis using True
      by (simp add: get_apigateway Let_def cong: sum.case_cong option.case_cong prod.case_cong)
  next
    case False
    then show ?thesis using reg by (simp add: get_generic cong: sum.case_cong)
  qed
  show "\<forall>rs e g' n. get iface job region g = Some (Inr ((rs, e), g', n)) \<longrightarrow>
           n = 100 \<and> resourceGroupTaggingAPICounter g' = resourceGroupTaggingAPICounter g + 100"
  proof (cases "Type job = ''apigateway''")
    case True
    then have "fs = [''apigateway'']" using reg by (simp add: allResourceTypesFilters_def)
    then show ?thesis using True full
      by (auto simp: get_apigateway Let_def incResourceGroupTaggingAPICounter_funpow
               split: sum.splits option.splits prod.splits)
  next
    case False
    then show ?thesis using reg full
      by (auto simp: get_generic incResourceGroupTaggingAPICounter_funpow split: sum.splits)
  qed
  show "Type job \<noteq> ''apigateway'' \<longrightarrow>
         get iface job region g =
           Some (case appendFiltered (mappingResource job region) (SearchTags job)
                        (concat (firstPages 100 (client iface fs))) [] of
                   Inl f \<Rightarrow> Inl f
                 | Inr rs \<Rightarrow>
                     Inr ((rs, None),
                          g\<lparr>resourceGroupTaggingAPICounter :=
                               resourceGroupTaggingAPICounter g + 100\<rparr>, 100))"
    using reg full
    by (simp add: get_generic incResourceGroupTaggingAPICounter_funpow cong: sum.case_cong)
qed

subsection \<open>A failing request\<close>

lemma failing_source:
  assumes "length ps < n"
  shows "firstPages n (pagesOf ps (RequestFails e)) = ps"
    and "errorWithin n (pagesOf ps (RequestFails e)) = Some e"
    and "requestsWithin n (pagesOf ps (RequestFails e)) = Suc (length ps)"
proof -
  obtain k where k: "n - length ps = Suc k"
    using assms by (cases "n - length ps") auto
  show "firstPages n (pagesOf ps (RequestFails e)) = ps"
    using assms k by (simp add: firstPages_pagesOf)
  show "errorWithin n (pagesOf ps (RequestFails e)) = Some e"
    using assms k by (simp add: errorWithin_pagesOf)
  show "requestsWithin n (pagesOf ps (RequestFails e)) = Suc (length ps)"
    using assms k by (simp add: requestsWithin_pagesOf)
qed

lemma logged_incResourceGroupTaggingAPICounter [simp]:
  "logged ((incResourceGroupTaggingAPICounter ^^ k) g) = logged g"
  by (simp add: incResourceGroupTaggingAPICounter_funpow)

lemma get_asg_fails:
  assumes "Type job = ''asg''" and "asgClient iface = pagesOf ps (RequestFails e)"
    and "length ps < 100"
    and "appendFiltered (asgResource job region) (SearchTags job) (concat ps) [] = Inr rs"
  shows "get iface job region g =
     Some (Inr ((rs, Some e),
                g\<lparr>autoScalingAPICounter := autoScalingAPICounter g + length ps\<rparr>,
                Suc (length ps)))"
  using assms
  by (simp add: get_asg getTaggedAutoscalingGroups_eq failing_source
        incAutoScalingAPICounter_funpow)

lemma get_tgwa_fails:
  assumes "Type job = ''tgwa''" and "ec2Client iface = pagesOf ps (RequestFails e)"
    and "length ps < 100"
    and "appendFiltered (tgwaResource job region) (SearchTags job) (concat ps) [] = Inr rs"
  shows "get iface job region g =
     Some (Inr ((rs, Some e), g\<lparr>ec2APICounter := ec2APICounter g + length ps\<rparr>,
                Suc (length ps)))"
  using assms
  by (simp add: get_tgwa getTaggedTransitGatewayAttachments_eq failing_source
        incEc2APICounter_funpow)

lemma get_generic_fails:
  assumes "allResourceTypesFilters (Type job) = Some fs" and "Type job \<noteq> ''apigateway''"
    and "client iface fs = pagesOf ps (RequestFails e)" and "length ps < 100"
    and "appendFiltered (mappingResource job region) (SearchTags job) (concat ps) [] = Inr rs"
  shows "get iface job region g =
     Some (Inr ((rs, Some e),
                g\<lparr>resourceGroupTaggingAPICounter :=
                     resourceGroupTaggingAPICounter g + length ps\<rparr>,
                Suc (length ps)))"
  using assms
  by (simp add: get_generic failing_source incResourceGroupTaggingAPICounter_funpow)

lemma get_apigateway_search_fails:
  assumes "Type job = ''apigateway''"
    and "client iface [''apigateway''] = pagesOf ps (RequestFails e)" and "length ps < 100"
    and "appendFiltered (mappingResource job region) (SearchTags job) (concat ps) [] = Inr rs"
    and "errorWithin 11 (apiGatewayClient iface 500) = None"
    and "enrichResources rs (concat (firstPages 11 (apiGatewayClient iface 500))) []
           (logged g) = Inr (filtered, lg)"
  shows "\<exists>g'. get iface job region g = Some (Inr ((filtered, Some e), g', Suc (length ps)))"
  using assms
  by (simp add: get_apigateway failing_source Let_def)

lemma get_apigateway_listing_fails:
  assumes "Type job = ''apigateway''"
    and "apiGatewayClient iface 500 = pagesOf qs (RequestFails e')" and "length qs < 11"
    and "appendFiltered (mappingResource job region) (SearchTags job)
           (concat (firstPages 100 (client iface [''apigateway'']))) [] = Inr rs"
  shows "\<exists>g'. get iface job region g =
           Some (Inr ((rs, Some e'), g', requestsWithin 100 (client iface [''apigateway''])))"
  using assms
  by (simp add: get_apigateway failing_source Let_def)

subsection \<open>The enrichment loop\<close>

lemma scanRestApis_eq:
  assumes "\<forall>a \<in> set items. RestApi_Id a \<noteq> None"
  shows "scanRestApis restApiId items m =
     Inr (if listedWithId restApiId items = [] then m
          else RestApi_Name (last (listedWithId restApiId items)))"
  using assms
proof (induction items arbitrary: m)
  case Nil
  then show ?case by (simp add: listedWithId_def)
next
  case (Cons a items)
  then obtain i where i: "RestApi_Id a = Some i" by auto
  have rest: "\<forall>a \<in> set items. RestApi_Id a \<noteq> None" using Cons.prems by simp
  show ?case
    using i Cons.IH [OF rest] by (simp add: deref_def listedWithId_def)
qed

lemma enrichResources_eq:
  assumes recs: "\<forall>r \<in> set rs. Matcher r = None \<and>
        (\<exists>ident. ID r = Some ident \<and>
           (strings_Contains ident ''/restapis'' \<longrightarrow> 3 \<le> length (strings_Split ident (CHR ''/''))))"
    and apis: "\<forall>a \<in> set items. RestApi_Id a \<noteq> None \<and> RestApi_Name a \<noteq> None"
  shows "enrichResources rs items acc lg =
     Inr (acc @ map (\<lambda>r. r\<lparr>Matcher := RestApi_Name (last (listedWithId (restApiIdOf r) items))\<rparr>)
                  (filter (\<lambda>r. hasRestApis r \<and> listedWithId (restApiIdOf r) items \<noteq> []) rs),
          lg @ map (\<lambda>r. CouldNotFindGateway (the (ID r)) (restApiIdOf r))
                  (filter (\<lambda>r. hasRestApis r \<and> listedWithId (restApiIdOf r) items = []) rs))"
  using recs
proof (induction rs arbitrary: acc lg)
  case Nil
  then show ?case by simp
next
  case (Cons r rs)
  from Cons.prems obtain ident where ident: "ID r = Some ident" and m: "Matcher r = None"
    and segs: "strings_Contains ident ''/restapis'' \<Longrightarrow> 3 \<le> length (strings_Split ident (CHR ''/''))"
    by auto
  have rest: "\<forall>r \<in> set rs. Matcher r = None \<and>
        (\<exists>ident. ID r = Some ident \<and>
           (strings_Contains ident ''/restapis'' \<longrightarrow> 3 \<le> length (strings_Split ident (CHR ''/''))))"
    using Cons.prems by simp
  have ids: "\<forall>a \<in> set items. RestApi_Id a \<noteq> None" using apis by simp
  show ?case
  proof (cases "strings_Contains ident ''/restapis''")
    case False
    then show ?thesis
      using ident Cons.IH [OF rest] by (simp add: deref_def hasRestApis_def)
  next
    case True
    have idx: "index (strings_Split ident (CHR ''/'')) 2 = Inr (restApiIdOf r)"
      using segs [OF True] ident by (simp add: index_def restApiIdOf_def embeddedRestApiId_def)
    have has: "hasRestApis r" using True ident by (simp add: hasRestApis_def)
    show ?thesis
    proof (cases "listedWithId (restApiIdOf r) items = []")
      case True
      then show ?thesis
        using ident m idx has Cons.IH [OF rest] \<open>strings_Contains ident ''/restapis''\<close>
        by (simp add: deref_def scanRestApis_eq [OF ids])
    next
      case False
      then have "last (listedWithId (restApiIdOf r) items) \<in> set items"
        using last_in_set [OF False] by (auto simp: listedWithId_def)
      then have "RestApi_Name (last (listedWithId (restApiIdOf r) items)) \<noteq> None"
        using apis by simp
      then show ?thesis
        using False ident m idx has Cons.IH [OF rest] \<open>strings_Contains ident ''/restapis''\<close>
        by (simp add: deref_def scanRestApis_eq [OF ids])
    qed
  qed
qed


lemma listedWithId_empty:
  "listedWithId x items = [] \<longleftrightarrow> Some x \<notin> RestApi_Id ` set items"
  by (force simp: listedWithId_def filter_empty_conv image_iff)

subsection \<open>The identifiers of the records returned\<close>

lemma appendFiltered_set:
  assumes "appendFiltered mk st items rs0 = Inr out" and "r \<in> set out"
  shows "r \<in> set rs0 \<or> (\<exists>x \<in> set items. mk x = Inr r)"
  using assms
proof (induction items arbitrary: rs0)
  case Nil
  then show ?case by simp
next
  case (Cons x xs)
  then obtain r' where r': "mk x = Inr r'" by (cases "mk x") auto
  from Cons.prems r' have
    "appendFiltered mk st xs (if filterThroughTags r' st then rs0 @ [r'] else rs0) = Inr out"
    by simp
  from Cons.IH [OF this Cons.prems(2)] r' show ?case
    by (auto split: if_splits)
qed

lemma strings_Contains_nonempty:
  "strings_Contains s substr \<Longrightarrow> substr \<noteq> [] \<Longrightarrow> s \<noteq> []"
  by (cases s) auto

lemma asgResource_ID:
  "asgResource job region asg = Inr r \<Longrightarrow> \<exists>ident. ID r = Some ident \<and> ident \<noteq> []"
  by (auto simp: asgResource_def asgID_def andThen_def deref_def index_def Let_def
           split: option.splits sum.splits if_splits)

lemma tgwaResource_ID:
  "tgwaResource job region tgwa = Inr r \<Longrightarrow> \<exists>ident. ID r = Some ident \<and> ident \<noteq> []"
  by (auto simp: tgwaResource_def andThen_def deref_def split: option.splits sum.splits)

lemma mappingResource_ID:
  "mappingResource job region m = Inr r \<Longrightarrow> ID r = ResourceARN m \<and> Matcher r = None"
  by (auto simp: mappingResource_def andThen_def split: sum.splits)

lemma enrichResources_set:
  assumes "enrichResources rs items acc lg = Inr (out, lg')" and "r \<in> set out"
  shows "r \<in> set acc \<or>
         (\<exists>r0 \<in> set rs. ID r = ID r0 \<and>
            (\<exists>ident. ID r0 = Some ident \<and> strings_Contains ident ''/restapis''))"
  using assms
proof (induction rs arbitrary: acc lg)
  case Nil
  then show ?case by simp
next
  case (Cons r0 rs)
  from Cons.prems(1) obtain ident where ident: "ID r0 = Some ident"
    by (cases "ID r0") (auto simp: deref_def)
  show ?case
  proof (cases "strings_Contains ident ''/restapis''")
    case False
    with Cons.prems ident have "enrichResources rs items acc lg = Inr (out, lg')"
      by (simp add: deref_def)
    from Cons.IH [OF this Cons.prems(2)] show ?thesis by auto
  next
    case True
    from Cons.prems(1) ident True obtain rid where
      rid: "index (strings_Split ident (CHR ''/'')) 2 = Inr rid"
      by (cases "index (strings_Split ident (CHR ''/'')) 2") (auto simp: deref_def)
    from Cons.prems(1) ident True rid obtain m where
      m: "scanRestApis rid items (Matcher r0) = Inr m"
      by (cases "scanRestApis rid items (Matcher r0)") (auto simp: deref_def)
    show ?thesis
    proof (cases "m = None")
      case True
      with Cons.prems ident \<open>strings_Contains ident ''/restapis''\<close> rid m
      have "enrichResources rs items acc (lg @ [CouldNotFindGateway ident rid]) = Inr (out, lg')"
        by (simp add: deref_def)
      from Cons.IH [OF this Cons.prems(2)] show ?thesis by auto
    next
      case False
      with Cons.prems ident \<open>strings_Contains ident ''/restapis''\<close> rid m
      have "enrichResources rs items (acc @ [r0\<lparr>Matcher := m\<rparr>]) lg = Inr (out, lg')"
        by (simp add: deref_def)
      from Cons.IH [OF this Cons.prems(2)] ident \<open>strings_Contains ident ''/restapis''\<close>
      show ?thesis by auto
    qed
  qed
qed

lemma get_asg_ids:
  assumes "Type job = ''asg'' \<or> Type job = ''tgwa''"
    and "get iface job region g = Some (Inr ((rs, e), g', n))" and "r \<in> set rs"
  shows "\<exists>ident. ID r = Some ident \<and> ident \<noteq> []"
proof -
  from assms(1) show ?thesis
  proof
    assume t: "Type job = ''asg''"
    with assms(2) have "appendFiltered (asgResource job region) (SearchTags job)
        (concat (firstPages 100 (asgClient iface))) [] = Inr rs"
      by (auto simp: get_asg getTaggedAutoscalingGroups_eq split: sum.splits)
    from appendFiltered_set [OF this assms(3)] show ?thesis
      by (auto dest: asgResource_ID)
  next
    assume t: "Type job = ''tgwa''"
    with assms(2) have "appendFiltered (tgwaResource job region) (SearchTags job)
        (concat (firstPages 100 (ec2Client iface))) [] = Inr rs"
      by (auto simp: get_tgwa getTaggedTransitGatewayAttachments_eq split: sum.splits)
    from appendFiltered_set [OF this assms(3)] show ?thesis
      by (auto dest: tgwaResource_ID)
  qed
qed

lemma get_generic_ids:
  assumes reg: "allResourceTypesFilters (Type job) = Some fs"
    and res: "get iface job region g = Some (Inr ((rs, e), g', n))" and r: "r \<in> set rs"
  shows "\<exists>m \<in> set (concat (firstPages 100 (client iface fs))). ID r = ResourceARN m"
proof (cases "Type job = ''apigateway''")
  case False
  with reg res have "appendFiltered (mappingResource job region) (SearchTags job)
        (concat (firstPages 100 (client iface fs))) [] = Inr rs"
    by (auto simp: get_generic split: sum.splits)
  from appendFiltered_set [OF this r] show ?thesis
    by (auto dest: mappingResource_ID)
next
  case True
  then have fs: "fs = [''apigateway'']" using reg by (simp add: allResourceTypesFilters_def)
  from res True obtain rs0 where
    acc: "appendFiltered (mappingResource job region) (SearchTags job)
        (concat (firstPages 100 (client iface fs))) [] = Inr rs0"
    by (cases "appendFiltered (mappingResource job region) (SearchTags job)
        (concat (firstPages 100 (client iface fs))) []") (auto simp: get_apigateway fs)
  have src: "\<exists>m \<in> set (concat (firstPages 100 (client iface fs))). ID r0 = ResourceARN m"
    if "r0 \<in> set rs0" for r0
    using appendFiltered_set [OF acc that] by (auto dest: mappingResource_ID)
  from res True acc have
    "rs = rs0 \<or> (\<exists>lg lg'. enrichResources rs0
        (concat (firstPages 11 (apiGatewayClient iface 500))) [] lg = Inr (rs, lg'))"
    by (auto simp: get_apigateway fs Let_def split: option.splits sum.splits)
  then show ?thesis
  proof
    assume "rs = rs0"
    with r src show ?thesis by simp
  next
    assume "\<exists>lg lg'. enrichResources rs0
        (concat (firstPages 11 (apiGatewayClient iface 500))) [] lg = Inr (rs, lg')"
    then obtain lg lg' where "enrichResources rs0
        (concat (firstPages 11 (apiGatewayClient iface 500))) [] lg = Inr (rs, lg')" by blast
    from enrichResources_set [OF this r] obtain r0 where "r0 \<in> set rs0" "ID r = ID r0"
      by auto
    with src [of r0] show ?thesis by simp
  qed
qed

lemma get_apigateway_ids:
  assumes t: "Type job = ''apigateway''"
    and ok: "errorWithin 11 (apiGatewayClient iface 500) = None"
    and res: "get iface job region g = Some (Inr ((rs, e), g', n))" and r: "r \<in> set rs"
  shows "\<exists>ident. ID r = Some ident \<and> strings_Contains ident ''/restapis'' \<and> ident \<noteq> []"
proof -
  from res t ok obtain rs0 lg lg' where "enrichResources rs0
        (concat (firstPages 11 (apiGatewayClient iface 500))) [] lg = Inr (rs, lg')"
    by (auto simp: get_apigateway Let_def split: option.splits sum.splits)
  from enrichResources_set [OF this r] obtain ident where
    "ID r = Some ident" "strings_Contains ident ''/restapis''"
    by auto
  then show ?thesis using strings_Contains_nonempty [of ident "''/restapis''"] by auto
qed

subsection \<open>The materialiser\<close>

lemma setLabel_other: "l \<noteq> labelKey \<Longrightarrow> setLabel labelKey entry tags m l = m l"
  by (induction tags arbitrary: m) simp_all

lemma dom_setLabel: "labelKey \<in> dom m \<Longrightarrow> dom (setLabel labelKey entry tags m) = dom m"
  by (induction tags arbitrary: m) auto

lemma setLabel_absent: "entry \<notin> Key ` set tags \<Longrightarrow> setLabel labelKey entry tags m = m"
  by (induction tags arbitrary: m) auto

lemma dom_tagLabels:
  "dom (tagLabels normKey entries tags m) = dom m \<union> (\<lambda>k. ''tag_'' @ normKey k) ` set entries"
proof (induction entries arbitrary: m)
  case Nil
  then show ?case by simp
next
  case (Cons e es)
  have "dom (setLabel (''tag_'' @ normKey e) e tags (m(''tag_'' @ normKey e \<mapsto> ''''))) =
      insert (''tag_'' @ normKey e) (dom m)"
    by (subst dom_setLabel) auto
  then show ?case by (simp add: Cons.IH Let_def)
qed

lemma tagLabels_name: "tagLabels normKey entries tags m ''name'' = m ''name''"
proof (induction entries arbitrary: m)
  case Nil
  then show ?case by simp
next
  case (Cons e es)
  have "''name'' \<noteq> ''tag_'' @ normKey e" by simp
  then show ?case by (simp add: Cons.IH Let_def setLabel_other)
qed

lemma tagLabels_default:
  assumes "\<forall>t \<in> set tags. normKey (Key t) \<noteq> normKey k"
    and "k \<in> set entries \<or> m (''tag_'' @ normKey k) = Some ''''"
  shows "tagLabels normKey entries tags m (''tag_'' @ normKey k) = Some ''''"
  using assms(2)
proof (induction entries arbitrary: m)
  case Nil
  then show ?case by simp
next
  case (Cons e es)
  let ?m' = "setLabel (''tag_'' @ normKey e) e tags (m(''tag_'' @ normKey e \<mapsto> ''''))"
  have "k \<in> set es \<or> ?m' (''tag_'' @ normKey k) = Some ''''"
  proof (cases "normKey e = normKey k")
    case True
    then have "e \<notin> Key ` set tags" using assms(1) by auto
    then show ?thesis using True by (simp add: setLabel_absent)
  next
    case False
    then have "''tag_'' @ normKey k \<noteq> ''tag_'' @ normKey e" by simp
    then have "?m' (''tag_'' @ normKey k) = m (''tag_'' @ normKey k)"
      by (simp add: setLabel_other)
    moreover have "k \<noteq> e" using False by auto
    ultimately show ?thesis using Cons.prems by auto
  qed
  from Cons.IH [of ?m', OF this] show ?case by (simp add: Let_def)
qed

lemma addKeys_other: "svc' \<noteq> svc \<Longrightarrow> addKeys svc tags tagList svc' = tagList svc'"
  by (induction tags arbitrary: tagList) simp_all

lemma set_addKeys: "set (addKeys svc tags tagList svc) = set (tagList svc) \<union> Key ` set tags"
  by (induction tags arbitrary: tagList) (auto simp: stringInSlice_def list_ex_iff)

lemma serviceKeys_Cons:
  "serviceKeys svc (d # ds) =
     (if Service d = Some svc then map Key (Tags d) else []) @ serviceKeys svc ds"
  by (simp add: serviceKeys_def)

lemma buildTagList_eq:
  assumes "\<forall>d \<in> set ds. Service d \<noteq> None"
  shows "\<exists>tagList'. buildTagList ds tagList = Inr tagList' \<and>
           (\<forall>svc. set (tagList' svc) = set (tagList svc) \<union> set (serviceKeys svc ds))"
  using assms
proof (induction ds arbitrary: tagList)
  case Nil
  then show ?case by (simp add: serviceKeys_def)
next
  case (Cons d ds)
  from Cons.prems obtain s where s: "Service d = Some s" by auto
  have rest: "\<forall>d \<in> set ds. Service d \<noteq> None" using Cons.prems by simp
  show ?case
  proof (cases "Tags d = []")
    case True
    with Cons.IH [OF rest, of tagList] show ?thesis by (simp add: serviceKeys_Cons)
  next
    case False
    from Cons.IH [OF rest, of "addKeys s (Tags d) tagList"] obtain tagList' where
      b: "buildTagList ds (addKeys s (Tags d) tagList) = Inr tagList'" and
      k: "\<And>svc. set (tagList' svc) =
            set (addKeys s (Tags d) tagList svc) \<union> set (serviceKeys svc ds)"
      by blast
    have "set (tagList' svc) = set (tagList svc) \<union> set (serviceKeys svc (d # ds))" for svc
    proof (cases "svc = s")
      case True
      then show ?thesis using k [of svc] s by (auto simp: set_addKeys serviceKeys_Cons)
    next
      case False
      then show ?thesis using k [of svc] s by (simp add: addKeys_other serviceKeys_Cons)
    qed
    then show ?thesis using False s b by (simp add: deref_def)
  qed
qed

lemma emitMetrics_eq:
  assumes "\<forall>d \<in> set ds. ID d \<noteq> None \<and> Service d \<noteq> None"
  shows "\<exists>out. emitMetrics normService normKey tagList ds metrics = Inr (metrics @ out) \<and>
           list_all2 (\<lambda>d p. metricOf normService normKey tagList d = Inr p) ds out"
  using assms
proof (induction ds arbitrary: metrics)
  case Nil
  then show ?case by simp
next
  case (Cons d ds)
  from Cons.prems obtain p where p: "metricOf normService normKey tagList d = Inr p"
    by (auto simp: metricOf_def deref_def)
  have rest: "\<forall>d \<in> set ds. ID d \<noteq> None \<and> Service d \<noteq> None" using Cons.prems by simp
  from Cons.IH [OF rest, of "metrics @ [p]"] obtain out where
    "emitMetrics normService normKey tagList ds (metrics @ [p]) = Inr ((metrics @ [p]) @ out)"
    "list_all2 (\<lambda>d p. metricOf normService normKey tagList d = Inr p) ds out"
    by blast
  then show ?case using p by (intro exI [of _ "p # out"]) simp
qed

lemma metricOf_labels:
  assumes "metricOf normService normKey tagList d = Inr p"
  shows "\<exists>svc ident. Service d = Some svc \<and> ID d = Some ident \<and>
           labels p = tagLabels normKey (tagList svc) (Tags d) [''name'' \<mapsto> ident]"
  using assms
  by (auto simp: metricOf_def andThen_def deref_def split: option.splits)

lemma migrateTagsToPrometheus_eq:
  assumes "\<forall>d \<in> set tagData. ID d \<noteq> None \<and> Service d \<noteq> None"
  shows "\<exists>tagList metrics.
           migrateTagsToPrometheus normService normKey tagData = Inr metrics \<and>
           (\<forall>svc. set (tagList svc) = set (serviceKeys svc tagData)) \<and>
           list_all2 (\<lambda>d p. metricOf normService normKey tagList d = Inr p) tagData metrics"
proof -
  have "\<forall>d \<in> set tagData. Service d \<noteq> None" using assms by simp
  from buildTagList_eq [OF this, of "\<lambda>svc. []"] obtain tagList where
    b: "buildTagList tagData (\<lambda>svc. []) = Inr tagList" and
    k: "\<forall>svc. set (tagList svc) = set (serviceKeys svc tagData)"
    by auto
  from emitMetrics_eq [OF assms, of normService normKey tagList "[]"] obtain out where
    "emitMetrics normService normKey tagList tagData [] = Inr out"
    "list_all2 (\<lambda>d p. metricOf normService normKey tagList d = Inr p) tagData out"
    by auto
  with b k show ?thesis by (auto simp: migrateTagsToPrometheus_def)
qed

section \<open>The claims\<close>

text \<open>
  Claim C4. For every tag list of a record and every list of required matchers, the tag
  filter is true exactly when every required matcher has a tag of the record with the same
  key and the same value (plain equality); with no required matcher it is true for every
  record, also for one without tags. The filter is the one modelled from the spec.
\<close>

theorem filterThroughTags_exact:
  "(filterThroughTags r M \<longleftrightarrow>
      (\<forall>m \<in> set M. \<exists>t \<in> set (Tags r). Key t = Key m \<and> Value t = Value m))
   \<and> filterThroughTags r []
   \<and> filterThroughTags (r\<lparr>Tags := []\<rparr>) []"
  by (simp add: filterThroughTags_def list_all_iff list_ex_iff)

theorem filterThroughTags_exact_witness:
  "filterThroughTags
     \<lparr>ID = Some ''arn:aws:ec2:us-east-1:123456789012:instance/i-1'', Matcher = None,
      Tags = [\<lparr>Key = ''env'', Value = ''prod''\<rparr>, \<lparr>Key = ''team'', Value = ''core''\<rparr>],
      Service = Some ''ec2'', Region = Some ''us-east-1''\<rparr>
     [\<lparr>Key = ''team'', Value = ''core''\<rparr>, \<lparr>Key = ''env'', Value = ''prod''\<rparr>]
   \<and> \<not> filterThroughTags
     \<lparr>ID = Some ''arn:aws:ec2:us-east-1:123456789012:instance/i-1'', Matcher = None,
      Tags = [\<lparr>Key = ''env'', Value = ''prod''\<rparr>, \<lparr>Key = ''team'', Value = ''core''\<rparr>],
      Service = Some ''ec2'', Region = Some ''us-east-1''\<rparr>
     [\<lparr>Key = ''env'', Value = ''pro.*''\<rparr>]"
  using
    filterThroughTags_exact [of "\<lparr>ID = Some ''arn:aws:ec2:us-east-1:123456789012:instance/i-1'', Matcher = None,
      Tags = [\<lparr>Key = ''env'', Value = ''prod''\<rparr>, \<lparr>Key = ''team'', Value = ''core''\<rparr>],
      Service = Some ''ec2'', Region = Some ''us-east-1''\<rparr>"
      "[\<lparr>Key = ''team'', Value = ''core''\<rparr>, \<lparr>Key = ''env'', Value = ''prod''\<rparr>]"]
    filterThroughTags_exact [of "\<lparr>ID = Some ''arn:aws:ec2:us-east-1:123456789012:instance/i-1'', Matcher = None,
      Tags = [\<lparr>Key = ''env'', Value = ''prod''\<rparr>, \<lparr>Key = ''team'', Value = ''core''\<rparr>],
      Service = Some ''ec2'', Region = Some ''us-east-1''\<rparr>"
      "[\<lparr>Key = ''env'', Value = ''pro.*''\<rparr>]"]
  by simp

text \<open>
  Claim C5. For an autoscaling group whose native ARN splits on \<^verbatim>\<open>:\<close> into at least eight
  fields, the identifier of the record built for it is
  \<^verbatim>\<open>arn:<field 1>:autoscaling:<field 3>:<field 4>:<field 7>\<close>; the witness is the
  example of the specification.
\<close>

theorem asg_identifier:
  assumes "AutoScalingGroupARN asg = Some arn"
    and "8 \<le> length (strings_Split arn (CHR '':''))"
  shows "asgResource job region asg =
     andThen (appendTags (Group_Tags asg) []) (\<lambda>ts.
       Inr \<lparr>ID = Some (''arn:'' @ strings_Split arn (CHR '':'') ! 1 @ '':autoscaling:'' @
                       strings_Split arn (CHR '':'') ! 3 @ '':'' @
                       strings_Split arn (CHR '':'') ! 4 @ '':'' @
                       strings_Split arn (CHR '':'') ! 7),
            Matcher = None, Tags = ts, Service = Some (Type job), Region = Some region\<rparr>)"
  using assms by (simp add: asgResource_def deref_def asgID_eq)

theorem asg_identifier_witness:
  "AutoScalingGroupARN
      \<lparr>AutoScalingGroupARN = Some ''arn:aws:autoscaling:us-east-1:123456789012:autoScalingGroup:uuid:autoScalingGroupName/my-asg'',
       Group_Tags = [\<lparr>Tag_Key = Some ''env'', Tag_Value = Some ''prod''\<rparr>]\<rparr> =
     Some ''arn:aws:autoscaling:us-east-1:123456789012:autoScalingGroup:uuid:autoScalingGroupName/my-asg''
   \<and> 8 \<le> length (strings_Split ''arn:aws:autoscaling:us-east-1:123456789012:autoScalingGroup:uuid:autoScalingGroupName/my-asg'' (CHR '':''))
   \<and> asgResource \<lparr>Type = ''asg'', SearchTags = []\<rparr> ''us-east-1''
      \<lparr>AutoScalingGroupARN = Some ''arn:aws:autoscaling:us-east-1:123456789012:autoScalingGroup:uuid:autoScalingGroupName/my-asg'',
       Group_Tags = [\<lparr>Tag_Key = Some ''env'', Tag_Value = Some ''prod''\<rparr>]\<rparr> =
     Inr \<lparr>ID = Some ''arn:aws:autoscaling:us-east-1:123456789012:autoScalingGroupName/my-asg'',
          Matcher = None, Tags = [\<lparr>Key = ''env'', Value = ''prod''\<rparr>],
          Service = Some ''asg'', Region = Some ''us-east-1''\<rparr>"
  using asg_identifier [of
      "\<lparr>AutoScalingGroupARN = Some ''arn:aws:autoscaling:us-east-1:123456789012:autoScalingGroup:uuid:autoScalingGroupName/my-asg'',
        Group_Tags = [\<lparr>Tag_Key = Some ''env'', Tag_Value = Some ''prod''\<rparr>]\<rparr>"
      "''arn:aws:autoscaling:us-east-1:123456789012:autoScalingGroup:uuid:autoScalingGroupName/my-asg''"
      "\<lparr>Type = ''asg'', SearchTags = []\<rparr>" "''us-east-1''"]
  by (simp add: deref_def)

text \<open>
  Claim C10. The reconstruction of the autoscaling-group identifier returns an identifier
  exactly when the native ARN splits into at least eight fields. For a group whose ARN
  splits into fewer, an index into the split result is out of range: building its record
  panics, and so does the discovery call whenever such a group is among the pages it reads
  (with the panic of that group when it is the first item of the first page).
\<close>

theorem asg_short_arn_panics:
  "((\<exists>ident. asgID arn = Inr ident) \<longleftrightarrow> 8 \<le> length (strings_Split arn (CHR '':'')))
   \<and> (AutoScalingGroupARN asg = Some arn \<and> length (strings_Split arn (CHR '':'')) < 8 \<longrightarrow>
        (\<exists>i. asgResource job region asg =
              Inl (IndexOutOfRange i (length (strings_Split arn (CHR '':'')))))
      \<and> (asg \<in> set (concat (firstPages 100 (asgClient iface))) \<longrightarrow>
            (\<exists>f. getTaggedAutoscalingGroups iface job region g = Some (Inl f)))
      \<and> (\<forall>groups rest. asgClient iface = Page (asg # groups) rest \<longrightarrow>
            (\<exists>i. getTaggedAutoscalingGroups iface job region g =
                   Some (Inl (IndexOutOfRange i (length (strings_Split arn (CHR '':''))))))))"
proof -
  have "(\<exists>ident. asgID arn = Inr ident) \<longleftrightarrow> 8 \<le> length (strings_Split arn (CHR '':''))"
  proof (cases "8 \<le> length (strings_Split arn (CHR '':''))")
    case True
    then show ?thesis by (simp add: asgID_eq)
  next
    case False
    then have "length (strings_Split arn (CHR '':'')) < 8" by simp
    from asgID_short [OF this] False show ?thesis by simp
  qed
  then show ?thesis using asg_short_arn [of asg arn job region iface g] by blast
qed

theorem asg_short_arn_panics_witness:
  "getTaggedAutoscalingGroups
     \<lparr>client = \<lambda>fs. NoMorePages,
      asgClient = Page [\<lparr>AutoScalingGroupARN = Some ''arn:aws:autoscaling:us-east-1:123456789012:my-asg'',
                         Group_Tags = []\<rparr>] NoMorePages,
      apiGatewayClient = \<lambda>limit. NoMorePages,
      ec2Client = NoMorePages\<rparr>
     \<lparr>Type = ''asg'', SearchTags = []\<rparr> ''us-east-1''
     \<lparr>resourceGroupTaggingAPICounter = 0, autoScalingAPICounter = 0, apiGatewayAPICounter = 0,
      ec2APICounter = 0, logged = []\<rparr>
   = Some (Inl (IndexOutOfRange 7 6))"
proof -
  let ?asg = "\<lparr>AutoScalingGroupARN = Some ''arn:aws:autoscaling:us-east-1:123456789012:my-asg'',
                Group_Tags = []\<rparr>"
  let ?iface = "\<lparr>client = \<lambda>fs. NoMorePages, asgClient = Page [?asg] NoMorePages,
      apiGatewayClient = \<lambda>limit. NoMorePages, ec2Client = NoMorePages\<rparr>"
  let ?job = "\<lparr>Type = ''asg'', SearchTags = []\<rparr>"
  let ?g = "\<lparr>resourceGroupTaggingAPICounter = 0, autoScalingAPICounter = 0, apiGatewayAPICounter = 0,
      ec2APICounter = 0, logged = []\<rparr>"
  have arn: "AutoScalingGroupARN ?asg = Some ''arn:aws:autoscaling:us-east-1:123456789012:my-asg''"
    by simp
  have len: "length (strings_Split ''arn:aws:autoscaling:us-east-1:123456789012:my-asg'' (CHR '':'')) < 8"
    by simp
  have src: "asgClient ?iface = Page (?asg # []) NoMorePages"
    by simp
  obtain i n where r: "getTaggedAutoscalingGroups ?iface ?job ''us-east-1'' ?g =
              Some (Inl (IndexOutOfRange i n))"
    using asg_short_arn_panics [of "''arn:aws:autoscaling:us-east-1:123456789012:my-asg''"
        ?asg ?job "''us-east-1''" ?iface ?g] arn len src
    by blast
  have "asgResource ?job ''us-east-1'' ?asg = Inl (IndexOutOfRange 7 6)"
    by (simp add: asgResource_def deref_def asgID_def index_def Let_def)
  then have "getTaggedAutoscalingGroups ?iface ?job ''us-east-1'' ?g = Some (Inl (IndexOutOfRange 7 6))"
    by (simp add: getTaggedAutoscalingGroups_eq numeral_eq_Suc)
  with r show ?thesis by simp
qed


text \<open>
  Claim C2 asks that the REST-API listing accumulates exactly the first 10 pages of a
  longer source and requests no more. The callback answers \<^verbatim>\<open>pageNum <= maxPages\<close> with
  \<^verbatim>\<open>maxPages = 10\<close>, so the loop continues after the tenth page. Against a source of
  12 pages with one API each, the listing sends 11 requests and returns 11 items.
\<close>

theorem restApi_listing_reads_eleven_pages:
  "getTaggedApiGateway
     \<lparr>client = \<lambda>fs. NoMorePages, asgClient = NoMorePages,
      apiGatewayClient = \<lambda>limit. pagesOf
        (replicate 12 [\<lparr>RestApi_Id = Some ''abc123'', RestApi_Name = Some ''my-api''\<rparr>])
        NoMorePages,
      ec2Client = NoMorePages\<rparr>
     \<lparr>resourceGroupTaggingAPICounter = 0, autoScalingAPICounter = 0, apiGatewayAPICounter = 0,
      ec2APICounter = 0, logged = []\<rparr>
   = Some (Inr ((replicate 11 \<lparr>RestApi_Id = Some ''abc123'', RestApi_Name = Some ''my-api''\<rparr>, None),
        \<lparr>resourceGroupTaggingAPICounter = 0, autoScalingAPICounter = 0, apiGatewayAPICounter = 1,
         ec2APICounter = 0, logged = []\<rparr>, 11))"
  by (simp add: getTaggedApiGateway_def getRestApisPage_def maxPages_def PagesWithContext_Page
        numeral_eq_Suc)

text \<open>
  Claim C9. The generic, autoscaling-group and transit-gateway-attachment loops request
  at most 100 pages: every call of \<open>get\<close> returns, against any source, with at most 100
  page requests sent to its discovery listing. Against a source that yields more than 100
  pages the call returns what it returns against the source cut after its 100th page, it
  has sent exactly 100 requests (the per-page counter has advanced by 100), and the
  records are those built from the items of the first 100 pages.
\<close>

theorem discovery_page_cap:
  "(\<exists>out. get iface job region g = Some out)
   \<and> (\<forall>rs e g' n. get iface job region g = Some (Inr ((rs, e), g', n)) \<longrightarrow> n \<le> 100)
   \<and> (Type job = ''asg'' \<and> yieldsMoreThan 100 (asgClient iface) \<longrightarrow>
        get iface job region g
          = get (iface\<lparr>asgClient := takePages 100 (asgClient iface)\<rparr>) job region g
      \<and> get iface job region g =
          Some (case appendFiltered (asgResource job region) (SearchTags job)
                       (concat (firstPages 100 (asgClient iface))) [] of
                  Inl f \<Rightarrow> Inl f
                | Inr rs \<Rightarrow>
                    Inr ((rs, None),
                         g\<lparr>autoScalingAPICounter := autoScalingAPICounter g + 100\<rparr>, 100)))
   \<and> (Type job = ''tgwa'' \<and> yieldsMoreThan 100 (ec2Client iface) \<longrightarrow>
        get iface job region g
          = get (iface\<lparr>ec2Client := takePages 100 (ec2Client iface)\<rparr>) job region g
      \<and> get iface job region g =
          Some (case appendFiltered (tgwaResource job region) (SearchTags job)
                       (concat (firstPages 100 (ec2Client iface))) [] of
                  Inl f \<Rightarrow> Inl f
                | Inr rs \<Rightarrow>
                    Inr ((rs, None), g\<lparr>ec2APICounter := ec2APICounter g + 100\<rparr>, 100)))
   \<and> (allResourceTypesFilters (Type job) = Some fs \<and> yieldsMoreThan 100 (client iface fs) \<longrightarrow>
        get iface job region g
          = get (iface\<lparr>client := \<lambda>f. takePages 100 (client iface f)\<rparr>) job region g
      \<and> (\<forall>rs e g' n. get iface job region g = Some (Inr ((rs, e), g', n)) \<longrightarrow>
            n = 100 \<and>
            resourceGroupTaggingAPICounter g' = resourceGroupTaggingAPICounter g + 100)
      \<and> (Type job \<noteq> ''apigateway'' \<longrightarrow>
          get iface job region g =
            Some (case appendFiltered (mappingResource job region) (SearchTags job)
                         (concat (firstPages 100 (client iface fs))) [] of
                    Inl f \<Rightarrow> Inl f
                  | Inr rs \<Rightarrow>
                      Inr ((rs, None),
                           g\<lparr>resourceGroupTaggingAPICounter :=
                                resourceGroupTaggingAPICounter g + 100\<rparr>, 100))))"
  using get_returns [of iface job region g] get_requests [of iface job region g]
    get_asg_cap [of job iface region g] get_tgwa_cap [of job iface region g]
    get_generic_cap [of job fs iface region g]
  by blast


theorem discovery_page_cap_witness:
  "(Type \<lparr>Type = ''asg'', SearchTags = []\<rparr> = ''asg''
    \<and> yieldsMoreThan 100 (endless [\<lparr>AutoScalingGroupARN = Some ''arn:aws:autoscaling:us-east-1:123456789012:autoScalingGroup:uuid:autoScalingGroupName/my-asg'', Group_Tags = []\<rparr>])
    \<and> get \<lparr>client = \<lambda>fs. NoMorePages,
             asgClient = endless [\<lparr>AutoScalingGroupARN = Some ''arn:aws:autoscaling:us-east-1:123456789012:autoScalingGroup:uuid:autoScalingGroupName/my-asg'', Group_Tags = []\<rparr>],
             apiGatewayClient = \<lambda>limit. NoMorePages, ec2Client = NoMorePages\<rparr>
          \<lparr>Type = ''asg'', SearchTags = []\<rparr> ''us-east-1''
          \<lparr>resourceGroupTaggingAPICounter = 0, autoScalingAPICounter = 0,
           apiGatewayAPICounter = 0, ec2APICounter = 0, logged = []\<rparr>
        = get \<lparr>client = \<lambda>fs. NoMorePages,
             asgClient = takePages 100 (endless [\<lparr>AutoScalingGroupARN = Some ''arn:aws:autoscaling:us-east-1:123456789012:autoScalingGroup:uuid:autoScalingGroupName/my-asg'', Group_Tags = []\<rparr>]),
             apiGatewayClient = \<lambda>limit. NoMorePages, ec2Client = NoMorePages\<rparr>
          \<lparr>Type = ''asg'', SearchTags = []\<rparr> ''us-east-1''
          \<lparr>resourceGroupTaggingAPICounter = 0, autoScalingAPICounter = 0,
           apiGatewayAPICounter = 0, ec2APICounter = 0, logged = []\<rparr>)
   \<and> (Type \<lparr>Type = ''tgwa'', SearchTags = []\<rparr> = ''tgwa''
    \<and> yieldsMoreThan 100 (endless [\<lparr>TransitGatewayId = Some ''tgw-1'', TransitGatewayAttachmentId = Some ''tgw-attach-2'', Attachment_Tags = []\<rparr>])
    \<and> get \<lparr>client = \<lambda>fs. NoMorePages, asgClient = NoMorePages,
             apiGatewayClient = \<lambda>limit. NoMorePages,
             ec2Client = endless [\<lparr>TransitGatewayId = Some ''tgw-1'', TransitGatewayAttachmentId = Some ''tgw-attach-2'', Attachment_Tags = []\<rparr>]\<rparr>
          \<lparr>Type = ''tgwa'', SearchTags = []\<rparr> ''us-east-1''
          \<lparr>resourceGroupTaggingAPICounter = 0, autoScalingAPICounter = 0,
           apiGatewayAPICounter = 0, ec2APICounter = 0, logged = []\<rparr>
        = get \<lparr>client = \<lambda>fs. NoMorePages, asgClient = NoMorePages,
             apiGatewayClient = \<lambda>limit. NoMorePages,
             ec2Client = takePages 100 (endless [\<lparr>TransitGatewayId = Some ''tgw-1'', TransitGatewayAttachmentId = Some ''tgw-attach-2'', Attachment_Tags = []\<rparr>])\<rparr>
          \<lparr>Type = ''tgwa'', SearchTags = []\<rparr> ''us-east-1''
          \<lparr>resourceGroupTaggingAPICounter = 0, autoScalingAPICounter = 0,
           apiGatewayAPICounter = 0, ec2APICounter = 0, logged = []\<rparr>)
   \<and> (allResourceTypesFilters (Type \<lparr>Type = ''ec2'', SearchTags = []\<rparr>) = Some [''ec2:instance'']
    \<and> yieldsMoreThan 100 (endless [\<lparr>ResourceARN = Some ''arn:aws:ec2:us-east-1:123456789012:instance/i-1'', Mapping_Tags = []\<rparr>])
    \<and> get \<lparr>client = \<lambda>fs. endless [\<lparr>ResourceARN = Some ''arn:aws:ec2:us-east-1:123456789012:instance/i-1'', Mapping_Tags = []\<rparr>],
             asgClient = NoMorePages, apiGatewayClient = \<lambda>limit. NoMorePages,
             ec2Client = NoMorePages\<rparr>
          \<lparr>Type = ''ec2'', SearchTags = []\<rparr> ''us-east-1''
          \<lparr>resourceGroupTaggingAPICounter = 0, autoScalingAPICounter = 0,
           apiGatewayAPICounter = 0, ec2APICounter = 0, logged = []\<rparr>
        = get \<lparr>client = \<lambda>f. takePages 100 (endless [\<lparr>ResourceARN = Some ''arn:aws:ec2:us-east-1:123456789012:instance/i-1'', Mapping_Tags = []\<rparr>]),
             asgClient = NoMorePages, apiGatewayClient = \<lambda>limit. NoMorePages,
             ec2Client = NoMorePages\<rparr>
          \<lparr>Type = ''ec2'', SearchTags = []\<rparr> ''us-east-1''
          \<lparr>resourceGroupTaggingAPICounter = 0, autoScalingAPICounter = 0,
           apiGatewayAPICounter = 0, ec2APICounter = 0, logged = []\<rparr>)"
proof -
  let ?g = "\<lparr>resourceGroupTaggingAPICounter = 0, autoScalingAPICounter = 0,
           apiGatewayAPICounter = 0, ec2APICounter = 0, logged = []\<rparr>"
  let ?asg = "\<lparr>AutoScalingGroupARN = Some ''arn:aws:autoscaling:us-east-1:123456789012:autoScalingGroup:uuid:autoScalingGroupName/my-asg'', Group_Tags = []\<rparr>"
  let ?tgwa = "\<lparr>TransitGatewayId = Some ''tgw-1'', TransitGatewayAttachmentId = Some ''tgw-attach-2'', Attachment_Tags = []\<rparr>"
  let ?m = "\<lparr>ResourceARN = Some ''arn:aws:ec2:us-east-1:123456789012:instance/i-1'', Mapping_Tags = []\<rparr>"
  let ?if1 = "\<lparr>client = \<lambda>fs. NoMorePages, asgClient = endless [?asg],
          apiGatewayClient = \<lambda>limit. NoMorePages, ec2Client = NoMorePages\<rparr>"
  let ?if2 = "\<lparr>client = \<lambda>fs. NoMorePages, asgClient = NoMorePages,
          apiGatewayClient = \<lambda>limit. NoMorePages, ec2Client = endless [?tgwa]\<rparr>"
  let ?if3 = "\<lparr>client = \<lambda>fs. endless [?m], asgClient = NoMorePages,
          apiGatewayClient = \<lambda>limit. NoMorePages, ec2Client = NoMorePages\<rparr>"
  let ?j1 = "\<lparr>Type = ''asg'', SearchTags = []\<rparr>"
  let ?j2 = "\<lparr>Type = ''tgwa'', SearchTags = []\<rparr>"
  let ?j3 = "\<lparr>Type = ''ec2'', SearchTags = []\<rparr>"
  have reg: "allResourceTypesFilters (Type ?j3) = Some [''ec2:instance'']"
    by (simp add: allResourceTypesFilters_def)
  have h1: "Type ?j1 = ''asg'' \<and> yieldsMoreThan 100 (asgClient ?if1)" by simp
  have h2: "Type ?j2 = ''tgwa'' \<and> yieldsMoreThan 100 (ec2Client ?if2)" by simp
  have h3: "allResourceTypesFilters (Type ?j3) = Some [''ec2:instance'']
      \<and> yieldsMoreThan 100 (client ?if3 [''ec2:instance''])"
    using reg by simp
  have e1: "get ?if1 ?j1 ''us-east-1'' ?g
      = get (?if1\<lparr>asgClient := takePages 100 (asgClient ?if1)\<rparr>) ?j1 ''us-east-1'' ?g"
    using discovery_page_cap [of ?if1 ?j1 "''us-east-1''" ?g "[]"] h1 by blast
  have e2: "get ?if2 ?j2 ''us-east-1'' ?g
      = get (?if2\<lparr>ec2Client := takePages 100 (ec2Client ?if2)\<rparr>) ?j2 ''us-east-1'' ?g"
    using discovery_page_cap [of ?if2 ?j2 "''us-east-1''" ?g "[]"] h2 by blast
  have e3: "get ?if3 ?j3 ''us-east-1'' ?g
      = get (?if3\<lparr>client := \<lambda>f. takePages 100 (client ?if3 f)\<rparr>) ?j3 ''us-east-1'' ?g"
    using discovery_page_cap [of ?if3 ?j3 "''us-east-1''" ?g "[''ec2:instance'']"] h3 by blast
  have u1: "?if1\<lparr>asgClient := takePages 100 (asgClient ?if1)\<rparr> =
      \<lparr>client = \<lambda>fs. NoMorePages, asgClient = takePages 100 (endless [?asg]),
       apiGatewayClient = \<lambda>limit. NoMorePages, ec2Client = NoMorePages\<rparr>" by simp
  have u2: "?if2\<lparr>ec2Client := takePages 100 (ec2Client ?if2)\<rparr> =
      \<lparr>client = \<lambda>fs. NoMorePages, asgClient = NoMorePages,
       apiGatewayClient = \<lambda>limit. NoMorePages, ec2Client = takePages 100 (endless [?tgwa])\<rparr>"
    by simp
  have u3: "?if3\<lparr>client := \<lambda>f. takePages 100 (client ?if3 f)\<rparr> =
      \<lparr>client = \<lambda>f. takePages 100 (endless [?m]), asgClient = NoMorePages,
       apiGatewayClient = \<lambda>limit. NoMorePages, ec2Client = NoMorePages\<rparr>" by simp
  from h1 h2 h3 e1 e2 e3 show ?thesis
    unfolding u1 u2 u3 by simp
qed

text \<open>
  Claim C8 says that when a paginated provider call fails mid-sequence, the discovery
  function propagates that error and returns with it the records accumulated so far.
  For an \<^verbatim>\<open>apigateway\<close> job the REST-API listing is requested after the tag search
  whether or not the search failed, and an error of the listing is the one returned:
  below the search fails with \<^verbatim>\<open>throttled\<close> after one page, the listing fails with
  \<^verbatim>\<open>denied\<close>, and the caller receives \<^verbatim>\<open>denied\<close>.
\<close>

theorem listing_error_replaces_search_error:
  "get \<lparr>client = \<lambda>fs. Page [\<lparr>ResourceARN = Some ''arn:aws:apigateway:us-east-1::/restapis/abc123/stages/prod'', Mapping_Tags = []\<rparr>] (RequestFails ''throttled''),
        asgClient = NoMorePages,
        apiGatewayClient = \<lambda>limit. RequestFails ''denied'',
        ec2Client = NoMorePages\<rparr>
       \<lparr>Type = ''apigateway'', SearchTags = []\<rparr> ''us-east-1''
       \<lparr>resourceGroupTaggingAPICounter = 0, autoScalingAPICounter = 0,
        apiGatewayAPICounter = 0, ec2APICounter = 0, logged = []\<rparr>
   = Some (Inr (([\<lparr>ID = Some ''arn:aws:apigateway:us-east-1::/restapis/abc123/stages/prod'',
                    Matcher = None, Tags = [], Service = Some ''apigateway'',
                    Region = Some ''us-east-1''\<rparr>], Some ''denied''),
          \<lparr>resourceGroupTaggingAPICounter = 1, autoScalingAPICounter = 0,
           apiGatewayAPICounter = 1, ec2APICounter = 0,
           logged = [GetTaggedApiGatewayFailed ''denied'']\<rparr>, 2))"
  by (simp add: get_def allResourceTypesFilters_def PagesWithContext_Page getResourcesPage_def
        discoveryPage_def mappingResource_def filterThroughTags_def
        incResourceGroupTaggingAPICounter_def getTaggedApiGateway_def)




text \<open>
  Claim C8, as amended. When a paginated provider call fails after fewer pages than its
  cap, the discovery function returns a non-nil error together with the records
  accumulated from the pages before the failure, and each page was requested once (no
  retry: the requests sent are the pages delivered plus the failing one). For the
  autoscaling-group path, the transit-gateway-attachment path and the generic path of a
  job other than \<^verbatim>\<open>apigateway\<close>, the error is the one of the failing call. For an
  \<^verbatim>\<open>apigateway\<close> job whose tag search fails and whose REST-API listing succeeds, the
  error of the search is returned with the accumulated records after enrichment; when the
  listing fails, the error of the listing is returned with the records as discovered.
\<close>

theorem failure_propagation:
  "(Type job = ''asg'' \<and> asgClient iface = pagesOf gs (RequestFails e) \<and> length gs < 100
      \<and> appendFiltered (asgResource job region) (SearchTags job) (concat gs) [] = Inr rs \<longrightarrow>
      get iface job region g =
        Some (Inr ((rs, Some e),
                   g\<lparr>autoScalingAPICounter := autoScalingAPICounter g + length gs\<rparr>,
                   Suc (length gs))))
   \<and> (Type job = ''tgwa'' \<and> ec2Client iface = pagesOf ts (RequestFails e) \<and> length ts < 100
      \<and> appendFiltered (tgwaResource job region) (SearchTags job) (concat ts) [] = Inr rs \<longrightarrow>
      get iface job region g =
        Some (Inr ((rs, Some e), g\<lparr>ec2APICounter := ec2APICounter g + length ts\<rparr>,
                   Suc (length ts))))
   \<and> (allResourceTypesFilters (Type job) = Some fs \<and> Type job \<noteq> ''apigateway''
      \<and> client iface fs = pagesOf ps (RequestFails e) \<and> length ps < 100
      \<and> appendFiltered (mappingResource job region) (SearchTags job) (concat ps) [] = Inr rs \<longrightarrow>
      get iface job region g =
        Some (Inr ((rs, Some e),
                   g\<lparr>resourceGroupTaggingAPICounter :=
                        resourceGroupTaggingAPICounter g + length ps\<rparr>,
                   Suc (length ps))))
   \<and> (Type job = ''apigateway''
      \<and> client iface [''apigateway''] = pagesOf ps (RequestFails e) \<and> length ps < 100
      \<and> appendFiltered (mappingResource job region) (SearchTags job) (concat ps) [] = Inr rs
      \<and> errorWithin 11 (apiGatewayClient iface 500) = None
      \<and> enrichResources rs (concat (firstPages 11 (apiGatewayClient iface 500))) []
           (logged g) = Inr (filtered, lg) \<longrightarrow>
      (\<exists>g'. get iface job region g = Some (Inr ((filtered, Some e), g', Suc (length ps)))))
   \<and> (Type job = ''apigateway''
      \<and> apiGatewayClient iface 500 = pagesOf qs (RequestFails e') \<and> length qs < 11
      \<and> appendFiltered (mappingResource job region) (SearchTags job)
           (concat (firstPages 100 (client iface [''apigateway'']))) [] = Inr rs' \<longrightarrow>
      (\<exists>g'. get iface job region g =
             Some (Inr ((rs', Some e'), g', requestsWithin 100 (client iface [''apigateway''])))))"
  using get_asg_fails [of job iface gs e region rs g]
    get_tgwa_fails [of job iface ts e region rs g]
    get_generic_fails [of job fs iface ps e region rs g]
    get_apigateway_search_fails [of job iface ps e region rs g filtered lg]
    get_apigateway_listing_fails [of job iface qs e' region rs' g]
  by blast

theorem failure_propagation_witness:
  "get \<lparr>client = \<lambda>fs. NoMorePages,
        asgClient = pagesOf [[\<lparr>AutoScalingGroupARN = Some ''arn:aws:autoscaling:us-east-1:123456789012:autoScalingGroup:uuid:autoScalingGroupName/my-asg'', Group_Tags = []\<rparr>]] (RequestFails ''throttled''),
        apiGatewayClient = \<lambda>limit. NoMorePages,
        ec2Client = NoMorePages\<rparr>
     \<lparr>Type = ''asg'', SearchTags = []\<rparr> ''us-east-1''
     \<lparr>resourceGroupTaggingAPICounter = 0, autoScalingAPICounter = 0,
        apiGatewayAPICounter = 0, ec2APICounter = 0, logged = []\<rparr>
   = Some (Inr (([\<lparr>ID = Some ''arn:aws:autoscaling:us-east-1:123456789012:autoScalingGroupName/my-asg'',
          Matcher = None, Tags = [], Service = Some ''asg'', Region = Some ''us-east-1''\<rparr>], Some ''throttled''),
        \<lparr>resourceGroupTaggingAPICounter = 0, autoScalingAPICounter = 1,
        apiGatewayAPICounter = 0, ec2APICounter = 0, logged = []\<rparr>, 2))
   \<and> get \<lparr>client = \<lambda>fs. NoMorePages,
        asgClient = NoMorePages,
        apiGatewayClient = \<lambda>limit. NoMorePages,
        ec2Client = pagesOf [[\<lparr>TransitGatewayId = Some ''tgw-1'', TransitGatewayAttachmentId = Some ''tgw-attach-2'', Attachment_Tags = []\<rparr>]] (RequestFails ''throttled'')\<rparr>
     \<lparr>Type = ''tgwa'', SearchTags = []\<rparr> ''us-east-1''
     \<lparr>resourceGroupTaggingAPICounter = 0, autoScalingAPICounter = 0,
        apiGatewayAPICounter = 0, ec2APICounter = 0, logged = []\<rparr>
   = Some (Inr (([\<lparr>ID = Some ''tgw-1/tgw-attach-2'', Matcher = None, Tags = [],
          Service = Some ''tgwa'', Region = Some ''us-east-1''\<rparr>], Some ''throttled''),
        \<lparr>resourceGroupTaggingAPICounter = 0, autoScalingAPICounter = 0,
        apiGatewayAPICounter = 0, ec2APICounter = 1, logged = []\<rparr>, 2))
   \<and> get \<lparr>client = \<lambda>fs. pagesOf [[\<lparr>ResourceARN = Some ''arn:aws:ec2:us-east-1:123456789012:instance/i-1'', Mapping_Tags = []\<rparr>]] (RequestFails ''throttled''),
        asgClient = NoMorePages,
        apiGatewayClient = \<lambda>limit. NoMorePages,
        ec2Client = NoMorePages\<rparr>
     \<lparr>Type = ''ec2'', SearchTags = []\<rparr> ''us-east-1''
     \<lparr>resourceGroupTaggingAPICounter = 0, autoScalingAPICounter = 0,
        apiGatewayAPICounter = 0, ec2APICounter = 0, logged = []\<rparr>
   = Some (Inr (([\<lparr>ID = Some ''arn:aws:ec2:us-east-1:123456789012:instance/i-1'', Matcher = None,
          Tags = [], Service = Some ''ec2'', Region = Some ''us-east-1''\<rparr>], Some ''throttled''),
        \<lparr>resourceGroupTaggingAPICounter = 1, autoScalingAPICounter = 0,
        apiGatewayAPICounter = 0, ec2APICounter = 0, logged = []\<rparr>, 2))
   \<and> (\<exists>g'. get \<lparr>client = \<lambda>fs. pagesOf [[\<lparr>ResourceARN = Some ''arn:aws:apigateway:us-east-1::/restapis/abc123/stages/prod'', Mapping_Tags = []\<rparr>]] (RequestFails ''throttled''),
        asgClient = NoMorePages,
        apiGatewayClient = \<lambda>limit. pagesOf [[\<lparr>RestApi_Id = Some ''abc123'', RestApi_Name = Some ''my-api''\<rparr>]] NoMorePages,
        ec2Client = NoMorePages\<rparr>
     \<lparr>Type = ''apigateway'', SearchTags = []\<rparr> ''us-east-1''
     \<lparr>resourceGroupTaggingAPICounter = 0, autoScalingAPICounter = 0,
        apiGatewayAPICounter = 0, ec2APICounter = 0, logged = []\<rparr>
   = Some (Inr (([\<lparr>ID = Some ''arn:aws:apigateway:us-east-1::/restapis/abc123/stages/prod'',
          Matcher = Some ''my-api'', Tags = [], Service = Some ''apigateway'',
          Region = Some ''us-east-1''\<rparr>], Some ''throttled''), g', 2)))
   \<and> (\<exists>g'. get \<lparr>client = \<lambda>fs. pagesOf [[\<lparr>ResourceARN = Some ''arn:aws:apigateway:us-east-1::/restapis/abc123/stages/prod'', Mapping_Tags = []\<rparr>]] (RequestFails ''throttled''),
        asgClient = NoMorePages,
        apiGatewayClient = \<lambda>limit. pagesOf [] (RequestFails ''denied''),
        ec2Client = NoMorePages\<rparr>
     \<lparr>Type = ''apigateway'', SearchTags = []\<rparr> ''us-east-1''
     \<lparr>resourceGroupTaggingAPICounter = 0, autoScalingAPICounter = 0,
        apiGatewayAPICounter = 0, ec2APICounter = 0, logged = []\<rparr>
   = Some (Inr (([\<lparr>ID = Some ''arn:aws:apigateway:us-east-1::/restapis/abc123/stages/prod'',
          Matcher = None, Tags = [], Service = Some ''apigateway'',
          Region = Some ''us-east-1''\<rparr>], Some ''denied''), g', 2)))"
proof -
  let ?g = "\<lparr>resourceGroupTaggingAPICounter = 0, autoScalingAPICounter = 0,
        apiGatewayAPICounter = 0, ec2APICounter = 0, logged = []\<rparr>"
  let ?if1 = "\<lparr>client = \<lambda>fs. NoMorePages,
        asgClient = pagesOf [[\<lparr>AutoScalingGroupARN = Some ''arn:aws:autoscaling:us-east-1:123456789012:autoScalingGroup:uuid:autoScalingGroupName/my-asg'', Group_Tags = []\<rparr>]] (RequestFails ''throttled''),
        apiGatewayClient = \<lambda>limit. NoMorePages,
        ec2Client = NoMorePages\<rparr>"
  let ?if2 = "\<lparr>client = \<lambda>fs. NoMorePages,
        asgClient = NoMorePages,
        apiGatewayClient = \<lambda>limit. NoMorePages,
        ec2Client = pagesOf [[\<lparr>TransitGatewayId = Some ''tgw-1'', TransitGatewayAttachmentId = Some ''tgw-attach-2'', Attachment_Tags = []\<rparr>]] (RequestFails ''throttled'')\<rparr>"
  let ?if3 = "\<lparr>client = \<lambda>fs. pagesOf [[\<lparr>ResourceARN = Some ''arn:aws:ec2:us-east-1:123456789012:instance/i-1'', Mapping_Tags = []\<rparr>]] (RequestFails ''throttled''),
        asgClient = NoMorePages,
        apiGatewayClient = \<lambda>limit. NoMorePages,
        ec2Client = NoMorePages\<rparr>"
  let ?if4 = "\<lparr>client = \<lambda>fs. pagesOf [[\<lparr>ResourceARN = Some ''arn:aws:apigateway:us-east-1::/restapis/abc123/stages/prod'', Mapping_Tags = []\<rparr>]] (RequestFails ''throttled''),
        asgClient = NoMorePages,
        apiGatewayClient = \<lambda>limit. pagesOf [[\<lparr>RestApi_Id = Some ''abc123'', RestApi_Name = Some ''my-api''\<rparr>]] NoMorePages,
        ec2Client = NoMorePages\<rparr>"
  let ?if5 = "\<lparr>client = \<lambda>fs. pagesOf [[\<lparr>ResourceARN = Some ''arn:aws:apigateway:us-east-1::/restapis/abc123/stages/prod'', Mapping_Tags = []\<rparr>]] (RequestFails ''throttled''),
        asgClient = NoMorePages,
        apiGatewayClient = \<lambda>limit. pagesOf [] (RequestFails ''denied''),
        ec2Client = NoMorePages\<rparr>"
  let ?asg = "\<lparr>AutoScalingGroupARN = Some ''arn:aws:autoscaling:us-east-1:123456789012:autoScalingGroup:uuid:autoScalingGroupName/my-asg'', Group_Tags = []\<rparr>"
  let ?tgw = "\<lparr>TransitGatewayId = Some ''tgw-1'', TransitGatewayAttachmentId = Some ''tgw-attach-2'', Attachment_Tags = []\<rparr>"
  let ?m = "\<lparr>ResourceARN = Some ''arn:aws:ec2:us-east-1:123456789012:instance/i-1'', Mapping_Tags = []\<rparr>"
  let ?am = "\<lparr>ResourceARN = Some ''arn:aws:apigateway:us-east-1::/restapis/abc123/stages/prod'', Mapping_Tags = []\<rparr>"
  let ?api = "\<lparr>RestApi_Id = Some ''abc123'', RestApi_Name = Some ''my-api''\<rparr>"
  let ?r = "\<lparr>ID = Some ''arn:aws:apigateway:us-east-1::/restapis/abc123/stages/prod'',
          Matcher = None, Tags = [], Service = Some ''apigateway'',
          Region = Some ''us-east-1''\<rparr>"
  have reg: "allResourceTypesFilters ''ec2'' = Some [''ec2:instance'']"
    by (simp add: allResourceTypesFilters_def)
  have b1: "appendFiltered (asgResource \<lparr>Type = ''asg'', SearchTags = []\<rparr> ''us-east-1'') (SearchTags \<lparr>Type = ''asg'', SearchTags = []\<rparr>)
      (concat [[?asg]]) [] = Inr [\<lparr>ID = Some ''arn:aws:autoscaling:us-east-1:123456789012:autoScalingGroupName/my-asg'',
          Matcher = None, Tags = [], Service = Some ''asg'', Region = Some ''us-east-1''\<rparr>]"
    by (simp add: asgResource_def asgID_def index_def deref_def filterThroughTags_def Let_def)
  have b2: "appendFiltered (tgwaResource \<lparr>Type = ''tgwa'', SearchTags = []\<rparr> ''us-east-1'') (SearchTags \<lparr>Type = ''tgwa'', SearchTags = []\<rparr>)
      (concat [[?tgw]]) [] = Inr [\<lparr>ID = Some ''tgw-1/tgw-attach-2'', Matcher = None, Tags = [],
          Service = Some ''tgwa'', Region = Some ''us-east-1''\<rparr>]"
    by (simp add: tgwaResource_def deref_def filterThroughTags_def)
  have b3: "appendFiltered (mappingResource \<lparr>Type = ''ec2'', SearchTags = []\<rparr> ''us-east-1'') (SearchTags \<lparr>Type = ''ec2'', SearchTags = []\<rparr>)
      (concat [[?m]]) [] = Inr [\<lparr>ID = Some ''arn:aws:ec2:us-east-1:123456789012:instance/i-1'', Matcher = None,
          Tags = [], Service = Some ''ec2'', Region = Some ''us-east-1''\<rparr>]"
    by (simp add: mappingResource_def filterThroughTags_def)
  have b4: "appendFiltered (mappingResource \<lparr>Type = ''apigateway'', SearchTags = []\<rparr> ''us-east-1'')
      (SearchTags \<lparr>Type = ''apigateway'', SearchTags = []\<rparr>) (concat [[?am]]) [] = Inr [?r]"
    by (simp add: mappingResource_def filterThroughTags_def)
  have b4': "appendFiltered (mappingResource \<lparr>Type = ''apigateway'', SearchTags = []\<rparr> ''us-east-1'')
      (SearchTags \<lparr>Type = ''apigateway'', SearchTags = []\<rparr>)
      (concat (firstPages 100 (client ?if5 [''apigateway'']))) [] = Inr [?r]"
  proof -
    have "firstPages 100 (pagesOf [[?am]] (RequestFails ''throttled'')) = [[?am]]"
      by (rule failing_source) simp
    with b4 show ?thesis by simp
  qed
  have l4: "errorWithin 11 (apiGatewayClient ?if4 500) = None"
    by (simp add: errorWithin_pagesOf numeral_eq_Suc)
  have f4: "firstPages 11 (apiGatewayClient ?if4 500) = [[?api]]"
    by (simp add: firstPages_pagesOf numeral_eq_Suc)
  have e4: "enrichResources [?r] (concat (firstPages 11 (apiGatewayClient ?if4 500))) []
      (logged ?g) = Inr ([\<lparr>ID = Some ''arn:aws:apigateway:us-east-1::/restapis/abc123/stages/prod'',
          Matcher = Some ''my-api'', Tags = [], Service = Some ''apigateway'',
          Region = Some ''us-east-1''\<rparr>], [])"
    unfolding f4 by (simp add: deref_def index_def)
  have n5: "requestsWithin 100 (client ?if5 [''apigateway'']) = 2"
  proof -
    have "requestsWithin 100 (pagesOf [[?am]] (RequestFails ''throttled'')) = Suc (length [[?am]])"
      by (rule failing_source) simp
    then show ?thesis by simp
  qed
  have "get ?if1 \<lparr>Type = ''asg'', SearchTags = []\<rparr> ''us-east-1'' ?g
        = Some (Inr (([\<lparr>ID = Some ''arn:aws:autoscaling:us-east-1:123456789012:autoScalingGroupName/my-asg'',
          Matcher = None, Tags = [], Service = Some ''asg'', Region = Some ''us-east-1''\<rparr>], Some ''throttled''),
             ?g\<lparr>autoScalingAPICounter := autoScalingAPICounter ?g + length [[?asg]]\<rparr>,
             Suc (length [[?asg]])))"
    using failure_propagation [where job = "\<lparr>Type = ''asg'', SearchTags = []\<rparr>" and iface = ?if1 and gs = "[[?asg]]"
        and e = "''throttled''" and region = "''us-east-1''" and rs = "[\<lparr>ID = Some ''arn:aws:autoscaling:us-east-1:123456789012:autoScalingGroupName/my-asg'',
          Matcher = None, Tags = [], Service = Some ''asg'', Region = Some ''us-east-1''\<rparr>]" and g = ?g] b1
    by simp
  moreover have "get ?if2 \<lparr>Type = ''tgwa'', SearchTags = []\<rparr> ''us-east-1'' ?g
        = Some (Inr (([\<lparr>ID = Some ''tgw-1/tgw-attach-2'', Matcher = None, Tags = [],
          Service = Some ''tgwa'', Region = Some ''us-east-1''\<rparr>], Some ''throttled''),
             ?g\<lparr>ec2APICounter := ec2APICounter ?g + length [[?tgw]]\<rparr>,
             Suc (length [[?tgw]])))"
    using failure_propagation [where job = "\<lparr>Type = ''tgwa'', SearchTags = []\<rparr>" and iface = ?if2 and ts = "[[?tgw]]"
        and e = "''throttled''" and region = "''us-east-1''" and rs = "[\<lparr>ID = Some ''tgw-1/tgw-attach-2'', Matcher = None, Tags = [],
          Service = Some ''tgwa'', Region = Some ''us-east-1''\<rparr>]" and g = ?g] b2
    by simp
  moreover have "get ?if3 \<lparr>Type = ''ec2'', SearchTags = []\<rparr> ''us-east-1'' ?g
        = Some (Inr (([\<lparr>ID = Some ''arn:aws:ec2:us-east-1:123456789012:instance/i-1'', Matcher = None,
          Tags = [], Service = Some ''ec2'', Region = Some ''us-east-1''\<rparr>], Some ''throttled''),
             ?g\<lparr>resourceGroupTaggingAPICounter :=
                  resourceGroupTaggingAPICounter ?g + length [[?m]]\<rparr>,
             Suc (length [[?m]])))"
    using failure_propagation [where job = "\<lparr>Type = ''ec2'', SearchTags = []\<rparr>" and iface = ?if3 and ps = "[[?m]]"
        and e = "''throttled''" and region = "''us-east-1''" and rs = "[\<lparr>ID = Some ''arn:aws:ec2:us-east-1:123456789012:instance/i-1'', Matcher = None,
          Tags = [], Service = Some ''ec2'', Region = Some ''us-east-1''\<rparr>]" and g = ?g
        and fs = "[''ec2:instance'']"] b3 reg
    by simp
  moreover have "\<exists>g'. get ?if4 \<lparr>Type = ''apigateway'', SearchTags = []\<rparr> ''us-east-1'' ?g
        = Some (Inr (([\<lparr>ID = Some ''arn:aws:apigateway:us-east-1::/restapis/abc123/stages/prod'',
          Matcher = Some ''my-api'', Tags = [], Service = Some ''apigateway'',
          Region = Some ''us-east-1''\<rparr>], Some ''throttled''), g', 2))"
    using failure_propagation [where job = "\<lparr>Type = ''apigateway'', SearchTags = []\<rparr>" and iface = ?if4
        and ps = "[[?am]]" and e = "''throttled''" and region = "''us-east-1''" and rs = "[?r]"
        and g = ?g and filtered = "[\<lparr>ID = Some ''arn:aws:apigateway:us-east-1::/restapis/abc123/stages/prod'',
          Matcher = Some ''my-api'', Tags = [], Service = Some ''apigateway'',
          Region = Some ''us-east-1''\<rparr>]" and lg = "[]"] b4 l4 e4
    by (simp add: numeral_2_eq_2)
  moreover have "\<exists>g'. get ?if5 \<lparr>Type = ''apigateway'', SearchTags = []\<rparr> ''us-east-1'' ?g
        = Some (Inr (([?r], Some ''denied''), g', 2))"
    using failure_propagation [where job = "\<lparr>Type = ''apigateway'', SearchTags = []\<rparr>" and iface = ?if5
        and qs = "[]" and e' = "''denied''" and region = "''us-east-1''" and rs' = "[?r]"
        and g = ?g] b4' n5
    by simp
  ultimately show ?thesis
    by simp
qed

text \<open>
  Claim C3 describes the output of the API-gateway enrichment for every batch of discovered
  records. The embedded id is read as \<^verbatim>\<open>strings.Split(*r.ID, "/")[2]\<close> with no check of
  the number of segments: for a record whose identifier contains \<^verbatim>\<open>/restapis\<close> and has
  fewer than three segments there is no output, the call panics. Below the tag search
  returns the identifier \<^verbatim>\<open>arn:aws:apigateway:us-east-1::/restapis\<close>.
\<close>

theorem enrichment_panics_on_short_identifier:
  "get \<lparr>client = \<lambda>fs. Page [\<lparr>ResourceARN = Some ''arn:aws:apigateway:us-east-1::/restapis'',
                              Mapping_Tags = []\<rparr>] NoMorePages,
        asgClient = NoMorePages,
        apiGatewayClient = \<lambda>limit. Page [\<lparr>RestApi_Id = Some ''abc123'',
                                           RestApi_Name = Some ''my-api''\<rparr>] NoMorePages,
        ec2Client = NoMorePages\<rparr>
       \<lparr>Type = ''apigateway'', SearchTags = []\<rparr> ''us-east-1''
       \<lparr>resourceGroupTaggingAPICounter = 0, autoScalingAPICounter = 0,
        apiGatewayAPICounter = 0, ec2APICounter = 0, logged = []\<rparr>
   = Some (Inl (IndexOutOfRange 2 2))"
  by (simp add: get_def allResourceTypesFilters_def PagesWithContext_Page getResourcesPage_def
        discoveryPage_def mappingResource_def filterThroughTags_def
        incResourceGroupTaggingAPICounter_def getTaggedApiGateway_def getRestApisPage_def
        maxPages_def deref_def index_def)

text \<open>
  Claim C3, as amended. For every batch of generically discovered records (no \<^verbatim>\<open>Matcher\<close>
  yet, an identifier present) in which every identifier containing \<^verbatim>\<open>/restapis\<close> has at
  least three \<^verbatim>\<open>/\<close>-delimited segments, and every REST-API listing whose items carry an id
  and a name: the enrichment output consists, in the order of the batch, exactly of the
  records whose identifier contains \<^verbatim>\<open>/restapis\<close> and whose third segment is the id of
  some listed API, each with \<^verbatim>\<open>Matcher\<close> set to the name of a listed API with that id
  (the last one listed); a record whose embedded id matches no listed API is dropped and
  one line is logged for it; a record without \<^verbatim>\<open>/restapis\<close> is dropped. The witness
  contains the example of the specification.
\<close>

theorem enrichment_output:
  assumes "\<forall>r \<in> set rs. Matcher r = None \<and>
        (\<exists>ident. ID r = Some ident \<and>
           (strings_Contains ident ''/restapis'' \<longrightarrow> 3 \<le> length (strings_Split ident (CHR ''/''))))"
    and "\<forall>a \<in> set items. RestApi_Id a \<noteq> None \<and> RestApi_Name a \<noteq> None"
  shows "enrichResources rs items [] lg =
     Inr (map (\<lambda>r. r\<lparr>Matcher := RestApi_Name (last (listedWithId (restApiIdOf r) items))\<rparr>)
            (filter (\<lambda>r. hasRestApis r \<and> Some (restApiIdOf r) \<in> RestApi_Id ` set items) rs),
          lg @ map (\<lambda>r. CouldNotFindGateway (the (ID r)) (restApiIdOf r))
            (filter (\<lambda>r. hasRestApis r \<and> Some (restApiIdOf r) \<notin> RestApi_Id ` set items) rs))
   \<and> (\<forall>r \<in> set rs. Some (restApiIdOf r) \<in> RestApi_Id ` set items \<longrightarrow>
         (\<exists>a \<in> set items. RestApi_Id a = Some (restApiIdOf r) \<and>
            RestApi_Name (last (listedWithId (restApiIdOf r) items)) = RestApi_Name a))"
proof -
  have "\<exists>a \<in> set items. RestApi_Id a = Some x \<and>
            RestApi_Name (last (listedWithId x items)) = RestApi_Name a"
    if "Some x \<in> RestApi_Id ` set items" for x
  proof -
    have ne: "listedWithId x items \<noteq> []" using that by (simp add: listedWithId_empty)
    have "last (listedWithId x items) \<in> set (listedWithId x items)"
      by (rule last_in_set [OF ne])
    then show ?thesis by (auto simp: listedWithId_def)
  qed
  then show ?thesis
    using enrichResources_eq [OF assms, of "[]" lg]
    by (simp add: listedWithId_empty)
qed

theorem enrichment_output_witness:
  "enrichResources
     [\<lparr>ID = Some ''arn:aws:apigateway:us-east-1::/restapis/abc123/resources/xyz'',
       Matcher = None, Tags = [], Service = Some ''apigateway'', Region = Some ''us-east-1''\<rparr>,
      \<lparr>ID = Some ''arn:aws:apigateway:us-east-1::/restapis/zzz999/stages/prod'',
       Matcher = None, Tags = [], Service = Some ''apigateway'', Region = Some ''us-east-1''\<rparr>,
      \<lparr>ID = Some ''arn:aws:apigateway:us-east-1::/apis/a1b2c3'',
       Matcher = None, Tags = [], Service = Some ''apigateway'', Region = Some ''us-east-1''\<rparr>]
     [\<lparr>RestApi_Id = Some ''def456'', RestApi_Name = Some ''other-api''\<rparr>,
      \<lparr>RestApi_Id = Some ''abc123'', RestApi_Name = Some ''my-api''\<rparr>]
     [] []
   = Inr ([\<lparr>ID = Some ''arn:aws:apigateway:us-east-1::/restapis/abc123/resources/xyz'',
            Matcher = Some ''my-api'', Tags = [], Service = Some ''apigateway'',
            Region = Some ''us-east-1''\<rparr>],
          [CouldNotFindGateway ''arn:aws:apigateway:us-east-1::/restapis/zzz999/stages/prod''
             ''zzz999''])"
proof -
  let ?rs = "[\<lparr>ID = Some ''arn:aws:apigateway:us-east-1::/restapis/abc123/resources/xyz'',
       Matcher = None, Tags = [], Service = Some ''apigateway'', Region = Some ''us-east-1''\<rparr>,
      \<lparr>ID = Some ''arn:aws:apigateway:us-east-1::/restapis/zzz999/stages/prod'',
       Matcher = None, Tags = [], Service = Some ''apigateway'', Region = Some ''us-east-1''\<rparr>,
      \<lparr>ID = Some ''arn:aws:apigateway:us-east-1::/apis/a1b2c3'',
       Matcher = None, Tags = [], Service = Some ''apigateway'', Region = Some ''us-east-1''\<rparr>]"
  let ?items = "[\<lparr>RestApi_Id = Some ''def456'', RestApi_Name = Some ''other-api''\<rparr>,
      \<lparr>RestApi_Id = Some ''abc123'', RestApi_Name = Some ''my-api''\<rparr>]"
  have h1: "\<forall>r \<in> set ?rs. Matcher r = None \<and>
        (\<exists>ident. ID r = Some ident \<and>
           (strings_Contains ident ''/restapis'' \<longrightarrow> 3 \<le> length (strings_Split ident (CHR ''/''))))"
    by simp
  have h2: "\<forall>a \<in> set ?items. RestApi_Id a \<noteq> None \<and> RestApi_Name a \<noteq> None"
    by simp
  from enrichment_output [OF h1 h2, of "[]"] show ?thesis
    by (simp add: hasRestApis_def restApiIdOf_def embeddedRestApiId_def listedWithId_def)
qed

text \<open>
  Claim C7 says that every record returned from a discovery path has an identifier that is
  neither nil nor empty. The generic path stores the pointer \<^verbatim>\<open>ResourceARN\<close> of the
  provider's item and checks nothing: an item without an ARN, or with an empty one, is
  returned as a record without an identifier, or with an empty one.
\<close>

theorem generic_path_returns_missing_identifiers:
  "get \<lparr>client = \<lambda>fs. Page [\<lparr>ResourceARN = None, Mapping_Tags = []\<rparr>, \<lparr>ResourceARN = Some '''', Mapping_Tags = []\<rparr>] NoMorePages,
        asgClient = NoMorePages,
        apiGatewayClient = \<lambda>limit. NoMorePages,
        ec2Client = NoMorePages\<rparr>
     \<lparr>Type = ''ec2'', SearchTags = []\<rparr> ''us-east-1''
     \<lparr>resourceGroupTaggingAPICounter = 0, autoScalingAPICounter = 0,
        apiGatewayAPICounter = 0, ec2APICounter = 0, logged = []\<rparr>
   = Some (Inr (([\<lparr>ID = None, Matcher = None, Tags = [], Service = Some ''ec2'',
                   Region = Some ''us-east-1''\<rparr>,
                  \<lparr>ID = Some '''', Matcher = None, Tags = [], Service = Some ''ec2'',
                   Region = Some ''us-east-1''\<rparr>], None),
        \<lparr>resourceGroupTaggingAPICounter = 1, autoScalingAPICounter = 0,
        apiGatewayAPICounter = 0, ec2APICounter = 0, logged = []\<rparr>, 1))"
  by (simp add: get_def allResourceTypesFilters_def PagesWithContext_Page getResourcesPage_def
        discoveryPage_def mappingResource_def filterThroughTags_def
        incResourceGroupTaggingAPICounter_def getTaggedApiGateway_def getRestApisPage_def
        maxPages_def deref_def index_def getTaggedAutoscalingGroups_def
        describeAutoScalingGroupsPage_def asgResource_def asgID_def Let_def
        incAutoScalingAPICounter_def getTaggedTransitGatewayAttachments_def
        describeTransitGatewayAttachmentsPage_def tgwaResource_def incEc2APICounter_def)

text \<open>
  Claim C7, as amended. Every record returned by the autoscaling-group path and by the
  transit-gateway-attachment path has an identifier that is present and not empty. A
  record returned by the generic path carries, unchanged, the \<^verbatim>\<open>ResourceARN\<close> of an item
  of one of the first 100 pages of the tag search, so its identifier is present and not
  empty when the provider's ARNs are. A record returned for an \<^verbatim>\<open>apigateway\<close> job whose
  REST-API listing succeeded has an identifier that contains \<^verbatim>\<open>/restapis\<close>, hence is
  present and not empty.
\<close>

theorem returned_identifiers:
  "(Type job = ''asg'' \<or> Type job = ''tgwa'' \<longrightarrow>
      (\<forall>rs e g' n. get iface job region g = Some (Inr ((rs, e), g', n)) \<longrightarrow>
         (\<forall>r \<in> set rs. \<exists>ident. ID r = Some ident \<and> ident \<noteq> [])))
   \<and> (allResourceTypesFilters (Type job) = Some fs \<longrightarrow>
      (\<forall>rs e g' n. get iface job region g = Some (Inr ((rs, e), g', n)) \<longrightarrow>
         (\<forall>r \<in> set rs. \<exists>m \<in> set (concat (firstPages 100 (client iface fs))).
            ID r = ResourceARN m)))
   \<and> (Type job = ''apigateway'' \<and> errorWithin 11 (apiGatewayClient iface 500) = None \<longrightarrow>
      (\<forall>rs e g' n. get iface job region g = Some (Inr ((rs, e), g', n)) \<longrightarrow>
         (\<forall>r \<in> set rs. \<exists>ident. ID r = Some ident \<and> strings_Contains ident ''/restapis''
            \<and> ident \<noteq> [])))"
  using get_asg_ids [of job iface region g] get_generic_ids [of job fs iface region g]
    get_apigateway_ids [of job iface region g]
  by blast


theorem returned_identifiers_witness:
  "get \<lparr>client = \<lambda>fs. NoMorePages,
        asgClient = Page [\<lparr>AutoScalingGroupARN = Some ''arn:aws:autoscaling:us-east-1:123456789012:autoScalingGroup:uuid:autoScalingGroupName/my-asg'', Group_Tags = []\<rparr>] NoMorePages,
        apiGatewayClient = \<lambda>limit. NoMorePages,
        ec2Client = NoMorePages\<rparr>
     \<lparr>Type = ''asg'', SearchTags = []\<rparr> ''us-east-1''
     \<lparr>resourceGroupTaggingAPICounter = 0, autoScalingAPICounter = 0,
        apiGatewayAPICounter = 0, ec2APICounter = 0, logged = []\<rparr>
   = Some (Inr (([\<lparr>ID = Some ''arn:aws:autoscaling:us-east-1:123456789012:autoScalingGroupName/my-asg'',
          Matcher = None, Tags = [], Service = Some ''asg'', Region = Some ''us-east-1''\<rparr>], None),
        \<lparr>resourceGroupTaggingAPICounter = 0, autoScalingAPICounter = 1,
        apiGatewayAPICounter = 0, ec2APICounter = 0, logged = []\<rparr>, 1))
   \<and> (\<exists>ident. ID \<lparr>ID = Some ''arn:aws:autoscaling:us-east-1:123456789012:autoScalingGroupName/my-asg'',
          Matcher = None, Tags = [], Service = Some ''asg'', Region = Some ''us-east-1''\<rparr> = Some ident \<and> ident \<noteq> [])
   \<and> get \<lparr>client = \<lambda>fs. NoMorePages,
        asgClient = NoMorePages,
        apiGatewayClient = \<lambda>limit. NoMorePages,
        ec2Client = Page [\<lparr>TransitGatewayId = Some ''tgw-1'', TransitGatewayAttachmentId = Some ''tgw-attach-2'', Attachment_Tags = []\<rparr>] NoMorePages\<rparr>
     \<lparr>Type = ''tgwa'', SearchTags = []\<rparr> ''us-east-1''
     \<lparr>resourceGroupTaggingAPICounter = 0, autoScalingAPICounter = 0,
        apiGatewayAPICounter = 0, ec2APICounter = 0, logged = []\<rparr>
   = Some (Inr (([\<lparr>ID = Some ''tgw-1/tgw-attach-2'', Matcher = None, Tags = [],
          Service = Some ''tgwa'', Region = Some ''us-east-1''\<rparr>], None),
        \<lparr>resourceGroupTaggingAPICounter = 0, autoScalingAPICounter = 0,
        apiGatewayAPICounter = 0, ec2APICounter = 1, logged = []\<rparr>, 1))
   \<and> (\<exists>ident. ID \<lparr>ID = Some ''tgw-1/tgw-attach-2'', Matcher = None, Tags = [],
          Service = Some ''tgwa'', Region = Some ''us-east-1''\<rparr> = Some ident \<and> ident \<noteq> [])
   \<and> get \<lparr>client = \<lambda>fs. Page [\<lparr>ResourceARN = Some ''arn:aws:ec2:us-east-1:123456789012:instance/i-1'', Mapping_Tags = []\<rparr>] NoMorePages,
        asgClient = NoMorePages,
        apiGatewayClient = \<lambda>limit. NoMorePages,
        ec2Client = NoMorePages\<rparr>
     \<lparr>Type = ''ec2'', SearchTags = []\<rparr> ''us-east-1''
     \<lparr>resourceGroupTaggingAPICounter = 0, autoScalingAPICounter = 0,
        apiGatewayAPICounter = 0, ec2APICounter = 0, logged = []\<rparr>
   = Some (Inr (([\<lparr>ID = Some ''arn:aws:ec2:us-east-1:123456789012:instance/i-1'', Matcher = None,
          Tags = [], Service = Some ''ec2'', Region = Some ''us-east-1''\<rparr>], None),
        \<lparr>resourceGroupTaggingAPICounter = 1, autoScalingAPICounter = 0,
        apiGatewayAPICounter = 0, ec2APICounter = 0, logged = []\<rparr>, 1))
   \<and> (\<exists>m \<in> set [\<lparr>ResourceARN = Some ''arn:aws:ec2:us-east-1:123456789012:instance/i-1'', Mapping_Tags = []\<rparr>]. ID \<lparr>ID = Some ''arn:aws:ec2:us-east-1:123456789012:instance/i-1'', Matcher = None,
          Tags = [], Service = Some ''ec2'', Region = Some ''us-east-1''\<rparr> = ResourceARN m)
   \<and> get \<lparr>client = \<lambda>fs. Page [\<lparr>ResourceARN = Some ''arn:aws:apigateway:us-east-1::/restapis/abc123/stages/prod'', Mapping_Tags = []\<rparr>] NoMorePages,
        asgClient = NoMorePages,
        apiGatewayClient = \<lambda>limit. Page [\<lparr>RestApi_Id = Some ''abc123'', RestApi_Name = Some ''my-api''\<rparr>] NoMorePages,
        ec2Client = NoMorePages\<rparr>
     \<lparr>Type = ''apigateway'', SearchTags = []\<rparr> ''us-east-1''
     \<lparr>resourceGroupTaggingAPICounter = 0, autoScalingAPICounter = 0,
        apiGatewayAPICounter = 0, ec2APICounter = 0, logged = []\<rparr>
   = Some (Inr (([\<lparr>ID = Some ''arn:aws:apigateway:us-east-1::/restapis/abc123/stages/prod'',
          Matcher = Some ''my-api'', Tags = [], Service = Some ''apigateway'',
          Region = Some ''us-east-1''\<rparr>], None),
        \<lparr>resourceGroupTaggingAPICounter = 1, autoScalingAPICounter = 0,
        apiGatewayAPICounter = 1, ec2APICounter = 0, logged = []\<rparr>, 1))
   \<and> (\<exists>ident. ID \<lparr>ID = Some ''arn:aws:apigateway:us-east-1::/restapis/abc123/stages/prod'',
          Matcher = Some ''my-api'', Tags = [], Service = Some ''apigateway'',
          Region = Some ''us-east-1''\<rparr> = Some ident \<and> strings_Contains ident ''/restapis'' \<and> ident \<noteq> [])"
proof -
  let ?g = "\<lparr>resourceGroupTaggingAPICounter = 0, autoScalingAPICounter = 0,
        apiGatewayAPICounter = 0, ec2APICounter = 0, logged = []\<rparr>"
  let ?if1 = "\<lparr>client = \<lambda>fs. NoMorePages,
        asgClient = Page [\<lparr>AutoScalingGroupARN = Some ''arn:aws:autoscaling:us-east-1:123456789012:autoScalingGroup:uuid:autoScalingGroupName/my-asg'', Group_Tags = []\<rparr>] NoMorePages,
        apiGatewayClient = \<lambda>limit. NoMorePages,
        ec2Client = NoMorePages\<rparr>"
  let ?if2 = "\<lparr>client = \<lambda>fs. NoMorePages,
        asgClient = NoMorePages,
        apiGatewayClient = \<lambda>limit. NoMorePages,
        ec2Client = Page [\<lparr>TransitGatewayId = Some ''tgw-1'', TransitGatewayAttachmentId = Some ''tgw-attach-2'', Attachment_Tags = []\<rparr>] NoMorePages\<rparr>"
  let ?if3 = "\<lparr>client = \<lambda>fs. Page [\<lparr>ResourceARN = Some ''arn:aws:ec2:us-east-1:123456789012:instance/i-1'', Mapping_Tags = []\<rparr>] NoMorePages,
        asgClient = NoMorePages,
        apiGatewayClient = \<lambda>limit. NoMorePages,
        ec2Client = NoMorePages\<rparr>"
  let ?if4 = "\<lparr>client = \<lambda>fs. Page [\<lparr>ResourceARN = Some ''arn:aws:apigateway:us-east-1::/restapis/abc123/stages/prod'', Mapping_Tags = []\<rparr>] NoMorePages,
        asgClient = NoMorePages,
        apiGatewayClient = \<lambda>limit. Page [\<lparr>RestApi_Id = Some ''abc123'', RestApi_Name = Some ''my-api''\<rparr>] NoMorePages,
        ec2Client = NoMorePages\<rparr>"
  have g1: "get \<lparr>client = \<lambda>fs. NoMorePages,
        asgClient = Page [\<lparr>AutoScalingGroupARN = Some ''arn:aws:autoscaling:us-east-1:123456789012:autoScalingGroup:uuid:autoScalingGroupName/my-asg'', Group_Tags = []\<rparr>] NoMorePages,
        apiGatewayClient = \<lambda>limit. NoMorePages,
        ec2Client = NoMorePages\<rparr>
     \<lparr>Type = ''asg'', SearchTags = []\<rparr> ''us-east-1''
     \<lparr>resourceGroupTaggingAPICounter = 0, autoScalingAPICounter = 0,
        apiGatewayAPICounter = 0, ec2APICounter = 0, logged = []\<rparr>
   = Some (Inr (([\<lparr>ID = Some ''arn:aws:autoscaling:us-east-1:123456789012:autoScalingGroupName/my-asg'',
          Matcher = None, Tags = [], Service = Some ''asg'', Region = Some ''us-east-1''\<rparr>], None),
        \<lparr>resourceGroupTaggingAPICounter = 0, autoScalingAPICounter = 1,
        apiGatewayAPICounter = 0, ec2APICounter = 0, logged = []\<rparr>, 1))"
    by (simp add: get_def allResourceTypesFilters_def PagesWithContext_Page getResourcesPage_def
        discoveryPage_def mappingResource_def filterThroughTags_def
        incResourceGroupTaggingAPICounter_def getTaggedApiGateway_def getRestApisPage_def
        maxPages_def deref_def index_def getTaggedAutoscalingGroups_def
        describeAutoScalingGroupsPage_def asgResource_def asgID_def Let_def
        incAutoScalingAPICounter_def getTaggedTransitGatewayAttachments_def
        describeTransitGatewayAttachmentsPage_def tgwaResource_def incEc2APICounter_def)
  have g2: "get \<lparr>client = \<lambda>fs. NoMorePages,
        asgClient = NoMorePages,
        apiGatewayClient = \<lambda>limit. NoMorePages,
        ec2Client = Page [\<lparr>TransitGatewayId = Some ''tgw-1'', TransitGatewayAttachmentId = Some ''tgw-attach-2'', Attachment_Tags = []\<rparr>] NoMorePages\<rparr>
     \<lparr>Type = ''tgwa'', SearchTags = []\<rparr> ''us-east-1''
     \<lparr>resourceGroupTaggingAPICounter = 0, autoScalingAPICounter = 0,
        apiGatewayAPICounter = 0, ec2APICounter = 0, logged = []\<rparr>
   = Some (Inr (([\<lparr>ID = Some ''tgw-1/tgw-attach-2'', Matcher = None, Tags = [],
          Service = Some ''tgwa'', Region = Some ''us-east-1''\<rparr>], None),
        \<lparr>resourceGroupTaggingAPICounter = 0, autoScalingAPICounter = 0,
        apiGatewayAPICounter = 0, ec2APICounter = 1, logged = []\<rparr>, 1))"
    by (simp add: get_def allResourceTypesFilters_def PagesWithContext_Page getResourcesPage_def
        discoveryPage_def mappingResource_def filterThroughTags_def
        incResourceGroupTaggingAPICounter_def getTaggedApiGateway_def getRestApisPage_def
        maxPages_def deref_def index_def getTaggedAutoscalingGroups_def
        describeAutoScalingGroupsPage_def asgResource_def asgID_def Let_def
        incAutoScalingAPICounter_def getTaggedTransitGatewayAttachments_def
        describeTransitGatewayAttachmentsPage_def tgwaResource_def incEc2APICounter_def)
  have g3: "get \<lparr>client = \<lambda>fs. Page [\<lparr>ResourceARN = Some ''arn:aws:ec2:us-east-1:123456789012:instance/i-1'', Mapping_Tags = []\<rparr>] NoMorePages,
        asgClient = NoMorePages,
        apiGatewayClient = \<lambda>limit. NoMorePages,
        ec2Client = NoMorePages\<rparr>
     \<lparr>Type = ''ec2'', SearchTags = []\<rparr> ''us-east-1''
     \<lparr>resourceGroupTaggingAPICounter = 0, autoScalingAPICounter = 0,
        apiGatewayAPICounter = 0, ec2APICounter = 0, logged = []\<rparr>
   = Some (Inr (([\<lparr>ID = Some ''arn:aws:ec2:us-east-1:123456789012:instance/i-1'', Matcher = None,
          Tags = [], Service = Some ''ec2'', Region = Some ''us-east-1''\<rparr>], None),
        \<lparr>resourceGroupTaggingAPICounter = 1, autoScalingAPICounter = 0,
        apiGatewayAPICounter = 0, ec2APICounter = 0, logged = []\<rparr>, 1))"
    by (simp add: get_def allResourceTypesFilters_def PagesWithContext_Page getResourcesPage_def
        discoveryPage_def mappingResource_def filterThroughTags_def
        incResourceGroupTaggingAPICounter_def getTaggedApiGateway_def getRestApisPage_def
        maxPages_def deref_def index_def getTaggedAutoscalingGroups_def
        describeAutoScalingGroupsPage_def asgResource_def asgID_def Let_def
        incAutoScalingAPICounter_def getTaggedTransitGatewayAttachments_def
        describeTransitGatewayAttachmentsPage_def tgwaResource_def incEc2APICounter_def)
  have g4: "get \<lparr>client = \<lambda>fs. Page [\<lparr>ResourceARN = Some ''arn:aws:apigateway:us-east-1::/restapis/abc123/stages/prod'', Mapping_Tags = []\<rparr>] NoMorePages,
        asgClient = NoMorePages,
        apiGatewayClient = \<lambda>limit. Page [\<lparr>RestApi_Id = Some ''abc123'', RestApi_Name = Some ''my-api''\<rparr>] NoMorePages,
        ec2Client = NoMorePages\<rparr>
     \<lparr>Type = ''apigateway'', SearchTags = []\<rparr> ''us-east-1''
     \<lparr>resourceGroupTaggingAPICounter = 0, autoScalingAPICounter = 0,
        apiGatewayAPICounter = 0, ec2APICounter = 0, logged = []\<rparr>
   = Some (Inr (([\<lparr>ID = Some ''arn:aws:apigateway:us-east-1::/restapis/abc123/stages/prod'',
          Matcher = Some ''my-api'', Tags = [], Service = Some ''apigateway'',
          Region = Some ''us-east-1''\<rparr>], None),
        \<lparr>resourceGroupTaggingAPICounter = 1, autoScalingAPICounter = 0,
        apiGatewayAPICounter = 1, ec2APICounter = 0, logged = []\<rparr>, 1))"
    by (simp add: get_def allResourceTypesFilters_def PagesWithContext_Page getResourcesPage_def
        discoveryPage_def mappingResource_def filterThroughTags_def
        incResourceGroupTaggingAPICounter_def getTaggedApiGateway_def getRestApisPage_def
        maxPages_def deref_def index_def getTaggedAutoscalingGroups_def
        describeAutoScalingGroupsPage_def asgResource_def asgID_def Let_def
        incAutoScalingAPICounter_def getTaggedTransitGatewayAttachments_def
        describeTransitGatewayAttachmentsPage_def tgwaResource_def incEc2APICounter_def)
  have reg: "allResourceTypesFilters (Type \<lparr>Type = ''ec2'', SearchTags = []\<rparr>) = Some [''ec2:instance'']"
    by (simp add: allResourceTypesFilters_def)
  have fp: "concat (firstPages 100 (client ?if3 [''ec2:instance''])) = [\<lparr>ResourceARN = Some ''arn:aws:ec2:us-east-1:123456789012:instance/i-1'', Mapping_Tags = []\<rparr>]"
    by (simp add: numeral_eq_Suc)
  have ew: "errorWithin 11 (apiGatewayClient ?if4 500) = None"
    by (simp add: numeral_eq_Suc)
  have k1: "(\<exists>ident. ID \<lparr>ID = Some ''arn:aws:autoscaling:us-east-1:123456789012:autoScalingGroupName/my-asg'',
          Matcher = None, Tags = [], Service = Some ''asg'', Region = Some ''us-east-1''\<rparr> = Some ident \<and> ident \<noteq> [])"
    using returned_identifiers [of "\<lparr>Type = ''asg'', SearchTags = []\<rparr>" ?if1 "''us-east-1''" ?g "[]"] g1 by simp
  have k2: "(\<exists>ident. ID \<lparr>ID = Some ''tgw-1/tgw-attach-2'', Matcher = None, Tags = [],
          Service = Some ''tgwa'', Region = Some ''us-east-1''\<rparr> = Some ident \<and> ident \<noteq> [])"
    using returned_identifiers [of "\<lparr>Type = ''tgwa'', SearchTags = []\<rparr>" ?if2 "''us-east-1''" ?g "[]"] g2 by simp
  have k3: "(\<exists>m \<in> set [\<lparr>ResourceARN = Some ''arn:aws:ec2:us-east-1:123456789012:instance/i-1'', Mapping_Tags = []\<rparr>]. ID \<lparr>ID = Some ''arn:aws:ec2:us-east-1:123456789012:instance/i-1'', Matcher = None,
          Tags = [], Service = Some ''ec2'', Region = Some ''us-east-1''\<rparr> = ResourceARN m)"
    using returned_identifiers [of "\<lparr>Type = ''ec2'', SearchTags = []\<rparr>" ?if3 "''us-east-1''" ?g "[''ec2:instance'']"] g3 reg fp
    by simp
  have k4: "(\<exists>ident. ID \<lparr>ID = Some ''arn:aws:apigateway:us-east-1::/restapis/abc123/stages/prod'',
          Matcher = Some ''my-api'', Tags = [], Service = Some ''apigateway'',
          Region = Some ''us-east-1''\<rparr> = Some ident \<and> strings_Contains ident ''/restapis'' \<and> ident \<noteq> [])"
    using returned_identifiers [of "\<lparr>Type = ''apigateway'', SearchTags = []\<rparr>" ?if4 "''us-east-1''" ?g "[]"] g4 ew by simp
  from g1 g2 g3 g4 k1 k2 k3 k4 show ?thesis by blast
qed

text \<open>
  Claim C1 says that the \<^verbatim>\<open>name\<close> label of an emitted metric is the effective identity of
  its record, \<^verbatim>\<open>Matcher\<close> when set and \<^verbatim>\<open>ID\<close> otherwise. The materialiser never reads
  \<^verbatim>\<open>Matcher\<close>: line 282 is \<^verbatim>\<open>promLabels["name"] = *d.ID\<close>. For an enriched API-gateway
  record the label is the identifier, not the name of the API.
\<close>

theorem name_label_ignores_matcher:
  "migrateTagsToPrometheus promString promStringTag
     [\<lparr>ID = Some ''arn:aws:apigateway:us-east-1::/restapis/abc123/stages/prod'',
       Matcher = Some ''my-api'', Tags = [\<lparr>Key = ''env'', Value = ''prod''\<rparr>],
       Service = Some ''apigateway'', Region = Some ''us-east-1''\<rparr>]
   = Inr [\<lparr>name = ''aws_apigateway_info'',
           labels = [''name'' \<mapsto> ''arn:aws:apigateway:us-east-1::/restapis/abc123/stages/prod'',
                     ''tag_env'' \<mapsto> ''prod''],
           val = 0\<rparr>]"
proof -
  have "promString ''apigateway'' = ''apigateway''" and "promStringTag ''env'' = ''env''"
    by code_simp+
  then show ?thesis
    by (simp add: migrateTagsToPrometheus_def metricOf_def deref_def stringInSlice_def)
qed



text \<open>
  Claim C1, as amended. For every batch whose records carry an identifier and a service,
  the materialiser emits one metric per record, in order, and the \<^verbatim>\<open>name\<close> label of
  each metric is the \<^verbatim>\<open>ID\<close> of its record, whether or not \<^verbatim>\<open>Matcher\<close> is set. This holds
  for any normalisation of services and tag keys.
\<close>

theorem name_label_is_identifier:
  assumes "\<forall>d \<in> set tagData. ID d \<noteq> None \<and> Service d \<noteq> None"
  shows "\<exists>metrics. migrateTagsToPrometheus normService normKey tagData = Inr metrics
           \<and> length metrics = length tagData
           \<and> (\<forall>i < length tagData. labels (metrics ! i) ''name'' = ID (tagData ! i))"
proof -
  from migrateTagsToPrometheus_eq [OF assms, of normService normKey] obtain tagList metrics where
    m: "migrateTagsToPrometheus normService normKey tagData = Inr metrics" and
    l: "list_all2 (\<lambda>d p. metricOf normService normKey tagList d = Inr p) tagData metrics"
    by blast
  have "labels (metrics ! i) ''name'' = ID (tagData ! i)" if i: "i < length tagData" for i
  proof -
    have "metricOf normService normKey tagList (tagData ! i) = Inr (metrics ! i)"
      using l i by (simp add: list_all2_conv_all_nth)
    from metricOf_labels [OF this] show ?thesis
      by (auto simp: tagLabels_name)
  qed
  then show ?thesis using m l by (auto simp: list_all2_lengthD)
qed

theorem name_label_is_identifier_witness:
  "\<exists>metrics.
     migrateTagsToPrometheus promString promStringTag
       [\<lparr>ID = Some ''arn:aws:apigateway:us-east-1::/restapis/abc123/stages/prod'',
         Matcher = Some ''my-api'', Tags = [\<lparr>Key = ''env'', Value = ''prod''\<rparr>],
         Service = Some ''apigateway'', Region = Some ''us-east-1''\<rparr>,
        \<lparr>ID = Some ''arn:aws:ec2:us-east-1:123456789012:instance/i-1'',
         Matcher = None, Tags = [], Service = Some ''ec2'', Region = Some ''us-east-1''\<rparr>]
       = Inr metrics
     \<and> length metrics = 2
     \<and> labels (metrics ! 0) ''name''
         = Some ''arn:aws:apigateway:us-east-1::/restapis/abc123/stages/prod''
     \<and> labels (metrics ! 1) ''name''
         = Some ''arn:aws:ec2:us-east-1:123456789012:instance/i-1''"
proof -
  let ?batch = "[\<lparr>ID = Some ''arn:aws:apigateway:us-east-1::/restapis/abc123/stages/prod'',
         Matcher = Some ''my-api'', Tags = [\<lparr>Key = ''env'', Value = ''prod''\<rparr>],
         Service = Some ''apigateway'', Region = Some ''us-east-1''\<rparr>,
        \<lparr>ID = Some ''arn:aws:ec2:us-east-1:123456789012:instance/i-1'',
         Matcher = None, Tags = [], Service = Some ''ec2'', Region = Some ''us-east-1''\<rparr>]"
  have h: "\<forall>d \<in> set ?batch. ID d \<noteq> None \<and> Service d \<noteq> None" by simp
  from name_label_is_identifier [OF h, of promString promStringTag] obtain metrics where
    m: "migrateTagsToPrometheus promString promStringTag ?batch = Inr metrics"
    and n: "length metrics = length ?batch"
    and l: "\<forall>i < length ?batch. labels (metrics ! i) ''name'' = ID (?batch ! i)"
    by blast
  from l have "labels (metrics ! 0) ''name'' = ID (?batch ! 0)"
    and "labels (metrics ! 1) ''name'' = ID (?batch ! 1)"
    by simp_all
  with m n show ?thesis by simp
qed



text \<open>
  Claim C6 says that every metric of a service has the label keys \<^verbatim>\<open>name\<close> and
  \<^verbatim>\<open>tag_<k>\<close> for the keys \<open>k\<close> of the service's union, and that a record lacking a key
  of the union carries the label of that key with the empty string. The label of a key is
  \<^verbatim>\<open>tag_\<close> followed by the normalised key, and two keys of the union may normalise to the
  same label: below the second record lacks \<^verbatim>\<open>cost.center\<close>, which the first record
  brings into the union, and its label for that key, \<^verbatim>\<open>tag_cost_center\<close>, is \<^verbatim>\<open>17\<close>, the
  value of its tag \<^verbatim>\<open>cost-center\<close> (while the first record, which has the key, shows the
  empty string).
\<close>

theorem colliding_keys_share_a_label:
  "migrateTagsToPrometheus promString promStringTag
     [\<lparr>ID = Some ''arn:aws:ec2:us-east-1:123456789012:instance/i-1'', Matcher = None,
       Tags = [\<lparr>Key = ''cost.center'', Value = ''42''\<rparr>],
       Service = Some ''ec2'', Region = Some ''us-east-1''\<rparr>,
      \<lparr>ID = Some ''arn:aws:ec2:us-east-1:123456789012:instance/i-2'', Matcher = None,
       Tags = [\<lparr>Key = ''cost-center'', Value = ''17''\<rparr>],
       Service = Some ''ec2'', Region = Some ''us-east-1''\<rparr>]
   = Inr [\<lparr>name = ''aws_ec2_info'',
           labels = [''name'' \<mapsto> ''arn:aws:ec2:us-east-1:123456789012:instance/i-1'',
                     ''tag_cost_center'' \<mapsto> ''''],
           val = 0\<rparr>,
          \<lparr>name = ''aws_ec2_info'',
           labels = [''name'' \<mapsto> ''arn:aws:ec2:us-east-1:123456789012:instance/i-2'',
                     ''tag_cost_center'' \<mapsto> ''17''],
           val = 0\<rparr>]"
proof -
  have "promString ''ec2'' = ''ec2''"
    and "promStringTag ''cost.center'' = ''cost_center''"
    and "promStringTag ''cost-center'' = ''cost_center''"
    by code_simp+
  then show ?thesis
    by (simp add: migrateTagsToPrometheus_def metricOf_def deref_def stringInSlice_def)
qed



text \<open>
  Claim C6, as amended. For every batch whose records carry an identifier and a service,
  and every service of it, each metric emitted for a record of that service has the same
  set of label keys: \<^verbatim>\<open>name\<close> and, for every key \<open>k\<close> among the tags of the records of the
  service, \<^verbatim>\<open>tag_\<close> followed by the normalised \<open>k\<close>. A record none of whose tag keys
  normalises to the same label as \<open>k\<close> (in particular, under a normalisation that keeps
  the keys of the service apart, a record lacking \<open>k\<close>) carries that label with the empty
  string. This holds for any normalisation of services and tag keys.
\<close>

theorem label_keys_uniform:
  assumes "\<forall>d \<in> set tagData. ID d \<noteq> None \<and> Service d \<noteq> None"
  shows "\<exists>metrics. migrateTagsToPrometheus normService normKey tagData = Inr metrics
           \<and> length metrics = length tagData
           \<and> (\<forall>i < length tagData. \<forall>svc. Service (tagData ! i) = Some svc \<longrightarrow>
                 dom (labels (metrics ! i)) =
                   insert ''name'' ((\<lambda>k. ''tag_'' @ normKey k) ` set (serviceKeys svc tagData))
               \<and> (\<forall>k \<in> set (serviceKeys svc tagData).
                     (\<forall>t \<in> set (Tags (tagData ! i)). normKey (Key t) \<noteq> normKey k) \<longrightarrow>
                     labels (metrics ! i) (''tag_'' @ normKey k) = Some ''''))"
proof -
  from migrateTagsToPrometheus_eq [OF assms, of normService normKey] obtain tagList metrics where
    m: "migrateTagsToPrometheus normService normKey tagData = Inr metrics" and
    k: "\<And>svc. set (tagList svc) = set (serviceKeys svc tagData)" and
    l: "list_all2 (\<lambda>d p. metricOf normService normKey tagList d = Inr p) tagData metrics"
    by blast
  have "dom (labels (metrics ! i)) =
          insert ''name'' ((\<lambda>k. ''tag_'' @ normKey k) ` set (serviceKeys svc tagData))
        \<and> (\<forall>k \<in> set (serviceKeys svc tagData).
              (\<forall>t \<in> set (Tags (tagData ! i)). normKey (Key t) \<noteq> normKey k) \<longrightarrow>
              labels (metrics ! i) (''tag_'' @ normKey k) = Some '''')"
    if i: "i < length tagData" and svc: "Service (tagData ! i) = Some svc" for i svc
  proof -
    have "metricOf normService normKey tagList (tagData ! i) = Inr (metrics ! i)"
      using l i by (simp add: list_all2_conv_all_nth)
    from metricOf_labels [OF this] obtain ident where
      lab: "labels (metrics ! i) =
              tagLabels normKey (tagList svc) (Tags (tagData ! i)) [''name'' \<mapsto> ident]"
      using svc by auto
    have "dom (labels (metrics ! i)) =
          insert ''name'' ((\<lambda>k. ''tag_'' @ normKey k) ` set (serviceKeys svc tagData))"
      by (simp add: lab dom_tagLabels k)
    moreover have "labels (metrics ! i) (''tag_'' @ normKey key) = Some ''''"
      if "key \<in> set (serviceKeys svc tagData)"
        and "\<forall>t \<in> set (Tags (tagData ! i)). normKey (Key t) \<noteq> normKey key" for key
      unfolding lab using that k [of svc] by (intro tagLabels_default) auto
    ultimately show ?thesis by blast
  qed
  then show ?thesis using m l by (auto simp: list_all2_lengthD)
qed



theorem label_keys_uniform_witness:
  "\<exists>metrics.
     migrateTagsToPrometheus promString promStringTag
       [\<lparr>ID = Some ''arn:aws:ec2:us-east-1:123456789012:instance/i-1'', Matcher = None,
         Tags = [\<lparr>Key = ''env'', Value = ''prod''\<rparr>, \<lparr>Key = ''team'', Value = ''core''\<rparr>],
         Service = Some ''ec2'', Region = Some ''us-east-1''\<rparr>,
        \<lparr>ID = Some ''arn:aws:ec2:us-east-1:123456789012:instance/i-2'', Matcher = None,
         Tags = [\<lparr>Key = ''env'', Value = ''dev''\<rparr>],
         Service = Some ''ec2'', Region = Some ''us-east-1''\<rparr>]
       = Inr metrics
     \<and> length metrics = 2
     \<and> dom (labels (metrics ! 0)) = {''name'', ''tag_env'', ''tag_team''}
     \<and> dom (labels (metrics ! 1)) = {''name'', ''tag_env'', ''tag_team''}
     \<and> labels (metrics ! 1) ''tag_team'' = Some ''''"
proof -
  let ?batch = "[\<lparr>ID = Some ''arn:aws:ec2:us-east-1:123456789012:instance/i-1'', Matcher = None,
         Tags = [\<lparr>Key = ''env'', Value = ''prod''\<rparr>, \<lparr>Key = ''team'', Value = ''core''\<rparr>],
         Service = Some ''ec2'', Region = Some ''us-east-1''\<rparr>,
        \<lparr>ID = Some ''arn:aws:ec2:us-east-1:123456789012:instance/i-2'', Matcher = None,
         Tags = [\<lparr>Key = ''env'', Value = ''dev''\<rparr>],
         Service = Some ''ec2'', Region = Some ''us-east-1''\<rparr>]"
  have h: "\<forall>d \<in> set ?batch. ID d \<noteq> None \<and> Service d \<noteq> None" by simp
  have keys: "serviceKeys ''ec2'' ?batch = [''env'', ''team'', ''env'']"
    by (simp add: serviceKeys_def)
  have norm: "promStringTag ''env'' = ''env''" "promStringTag ''team'' = ''team''"
    by code_simp+
  have "\<exists>metrics. migrateTagsToPrometheus promString promStringTag ?batch = Inr metrics
           \<and> length metrics = length ?batch
           \<and> (\<forall>i < length ?batch. \<forall>svc. Service (?batch ! i) = Some svc \<longrightarrow>
                 dom (labels (metrics ! i)) =
                   insert ''name'' ((\<lambda>k. ''tag_'' @ promStringTag k) ` set (serviceKeys svc ?batch))
               \<and> (\<forall>k \<in> set (serviceKeys svc ?batch).
                     (\<forall>t \<in> set (Tags (?batch ! i)). promStringTag (Key t) \<noteq> promStringTag k) \<longrightarrow>
                     labels (metrics ! i) (''tag_'' @ promStringTag k) = Some ''''))"
    by (rule label_keys_uniform [OF h])
  then obtain metrics where
    m: "migrateTagsToPrometheus promString promStringTag ?batch = Inr metrics"
    and n: "length metrics = length ?batch"
    and l: "\<forall>i < length ?batch. \<forall>svc. Service (?batch ! i) = Some svc \<longrightarrow>
                 dom (labels (metrics ! i)) =
                   insert ''name'' ((\<lambda>k. ''tag_'' @ promStringTag k) ` set (serviceKeys svc ?batch))
               \<and> (\<forall>k \<in> set (serviceKeys svc ?batch).
                     (\<forall>t \<in> set (Tags (?batch ! i)). promStringTag (Key t) \<noteq> promStringTag k) \<longrightarrow>
                     labels (metrics ! i) (''tag_'' @ promStringTag k) = Some '''')"
    by (elim exE conjE)
  have i0: "0 < length ?batch" and i1: "1 < length ?batch" by simp_all
  have s0: "Service (?batch ! 0) = Some ''ec2''" and s1: "Service (?batch ! 1) = Some ''ec2''"
    by simp_all
  note c0 = l [rule_format, OF i0 s0]
  note c1 = l [rule_format, OF i1 s1]
  have img: "(\<lambda>k. ''tag_'' @ promStringTag k) ` set [''env'', ''team'', ''env'']
      = {''tag_env'', ''tag_team''}"
    by (auto simp: norm)
  have d0: "dom (labels (metrics ! 0)) = {''name'', ''tag_env'', ''tag_team''}"
    using c0 [THEN conjunct1] unfolding keys img by simp
  have d1: "dom (labels (metrics ! 1)) = {''name'', ''tag_env'', ''tag_team''}"
    using c1 [THEN conjunct1] unfolding keys img by simp
  have mem: "''team'' \<in> set (serviceKeys ''ec2'' ?batch)" unfolding keys by simp
  have lack: "\<forall>t \<in> set (Tags (?batch ! 1)). promStringTag (Key t) \<noteq> promStringTag ''team''"
    by (simp add: norm)
  have f1: "labels (metrics ! 1) ''tag_team'' = Some ''''"
    using mp [OF bspec [OF c1 [THEN conjunct2] mem] lack] by (simp add: norm)
  from m n d0 d1 f1 show ?thesis by simp
qed

end
